theory Spec2Isabelle
  imports Main "HOL-Library.AList"
begin

section \<open>Python values and the operations the commands module applies to them\<close>

text \<open>
  The OpenAPI document, the request objects and the server responses are parsed JSON.
  A Python dict is an association list in insertion order (its keys are distinct; a
  lookup reads the first entry of a key), Python's \<open>None\<close> and JSON's \<open>null\<close> are
  both \<open>JNull\<close>. Floating point numbers are not modelled.
\<close>

datatype json =
    JNull
  | JBool bool
  | JInt int
  | JStr string
  | JArr "json list"
  | JObj "(string \<times> json) list"

text \<open>
  The exceptions of the module. \<open>MissingParam\<close> and \<open>InvalidParam\<close> are the two
  \<open>click.ClickException\<close>s of \<open>filter_json_object\<close> (a missing discriminator, a
  discriminator with an invalid value: key, value, the concrete types listed in the
  message), \<open>InvalidValueFor\<close> is the one of \<open>_check_arguments\<close>,
  \<open>MultipleClickException\<close> carries the composed message and the exit code.
  \<open>SchemaError\<close> is the failure of a reference that does not resolve. The others are
  Python's own (\<open>ReError\<close> is \<open>re.error\<close>, raised for a pattern that does not compile).
\<close>

datatype error =
    MissingParam json
  | InvalidParam json json "string list"
  | InvalidValueFor string
  | MultipleClickException string int
  | InvalidServerResponse
  | SchemaError json
  | KeyError
  | TypeError
  | AttributeError
  | IndexError
  | RecursionError
  | ReError

type_synonym 'a result = "error + 'a"

text \<open>Truth value of an object (\<open>if x:\<close>, \<open>x or y\<close>, \<open>not x\<close>).\<close>

fun truthy :: "json \<Rightarrow> bool" where
  "truthy JNull = False"
| "truthy (JBool b) = b"
| "truthy (JInt i) = (i \<noteq> 0)"
| "truthy (JStr s) = (s \<noteq> [])"
| "truthy (JArr xs) = (xs \<noteq> [])"
| "truthy (JObj kvs) = (kvs \<noteq> [])"

text \<open>\<open>sub in s\<close> on strings: \<open>sub\<close> occurs in \<open>s\<close> as a contiguous run.\<close>

fun starts_with :: "string \<Rightarrow> string \<Rightarrow> bool" where
  "starts_with [] s = True"
| "starts_with (p # ps) [] = False"
| "starts_with (p # ps) (c # cs) = (p = c \<and> starts_with ps cs)"

fun substring :: "string \<Rightarrow> string \<Rightarrow> bool" where
  "substring sub [] = (sub = [])"
| "substring sub (c # cs) = (starts_with sub (c # cs) \<or> substring sub cs)"

text \<open>
  \<open>k in x\<close> for a string \<open>k\<close>: key membership on a dict, element membership on a
  list, substring test on a string, \<open>TypeError\<close> on anything else.
\<close>

fun py_contains :: "string \<Rightarrow> json \<Rightarrow> bool result" where
  "py_contains k (JObj kvs) = Inr (k \<in> set (map fst kvs))"
| "py_contains k (JArr xs) = Inr (JStr k \<in> set xs)"
| "py_contains k (JStr s) = Inr (substring k s)"
| "py_contains k _ = Inl TypeError"

text \<open>\<open>x[k]\<close> for a string \<open>k\<close>: only a dict can be subscripted by a string.\<close>

fun py_getitem :: "json \<Rightarrow> string \<Rightarrow> json result" where
  "py_getitem (JObj kvs) k = (case map_of kvs k of None \<Rightarrow> Inl KeyError | Some v \<Rightarrow> Inr v)"
| "py_getitem _ k = Inl TypeError"

text \<open>\<open>x.get(k, d)\<close> and \<open>x.get(k)\<close>: only a dict has the method.\<close>

fun py_get_default :: "json \<Rightarrow> string \<Rightarrow> json \<Rightarrow> json result" where
  "py_get_default (JObj kvs) k d = (case map_of kvs k of None \<Rightarrow> Inr d | Some v \<Rightarrow> Inr v)"
| "py_get_default _ k d = Inl AttributeError"

definition py_get :: "json \<Rightarrow> string \<Rightarrow> json result" where
  "py_get x k = py_get_default x k JNull"

text \<open>\<open>x.items()\<close>.\<close>

fun py_items :: "json \<Rightarrow> (string \<times> json) list result" where
  "py_items (JObj kvs) = Inr kvs"
| "py_items _ = Inl AttributeError"

text \<open>
  \<open>for y in x\<close>: the elements of a list, the keys of a dict, the characters of a
  string; nothing else of JSON can be iterated.
\<close>

fun py_iter :: "json \<Rightarrow> json list result" where
  "py_iter (JArr xs) = Inr xs"
| "py_iter (JObj kvs) = Inr (map (\<lambda>kv. JStr (fst kv)) kvs)"
| "py_iter (JStr s) = Inr (map (\<lambda>c. JStr [c]) s)"
| "py_iter _ = Inl TypeError"

text \<open>\<open>x[0]\<close>.\<close>

fun py_index0 :: "json \<Rightarrow> json result" where
  "py_index0 (JArr []) = Inl IndexError"
| "py_index0 (JArr (x # xs)) = Inr x"
| "py_index0 (JStr []) = Inl IndexError"
| "py_index0 (JStr (c # cs)) = Inr (JStr [c])"
| "py_index0 (JObj kvs) = Inl KeyError"
| "py_index0 _ = Inl TypeError"

text \<open>\<open>s.split(c)\<close> (never empty, so \<open>s.split(c)[-1]\<close> is its last element) and \<open>sep.join(xs)\<close>.\<close>

fun split_on :: "char \<Rightarrow> string \<Rightarrow> string list" where
  "split_on c [] = [[]]"
| "split_on c (x # xs) =
     (if x = c then [] # split_on c xs
      else (case split_on c xs of [] \<Rightarrow> [[x]] | w # ws \<Rightarrow> (x # w) # ws))"

definition last_segment :: "string \<Rightarrow> string" where
  "last_segment s = last (split_on (CHR ''/'') s)"

fun join :: "string \<Rightarrow> string list \<Rightarrow> string" where
  "join sep [] = []"
| "join sep [x] = x"
| "join sep (x # y # ys) = x @ sep @ join sep (y # ys)"

text \<open>Decimal digits of a number, as \<open>str\<close> and \<open>%s\<close> print an \<open>int\<close>.\<close>

definition digit_char :: "nat \<Rightarrow> char" where
  "digit_char d = ''0123456789'' ! (d mod 10)"

function dec_nat :: "nat \<Rightarrow> string" where
  "dec_nat n = (if n < 10 then [digit_char n] else dec_nat (n div 10) @ [digit_char (n mod 10)])"
  by pat_completeness auto
termination
  by (relation "measure (\<lambda>n. n)") auto

definition dec_int :: "int \<Rightarrow> string" where
  "dec_int i = (if i < 0 then CHR ''-'' # dec_nat (nat (- i)) else dec_nat (nat i))"

text \<open>
  \<open>str(x)\<close>, which is also what \<open>%s\<close> and \<open>{}\<close> print. For a list or a dict Python
  prints its \<open>repr\<close>, which is taken as the parameter \<open>repr\<close>.
\<close>

fun py_str :: "(json \<Rightarrow> string) \<Rightarrow> json \<Rightarrow> string" where
  "py_str repr JNull = ''None''"
| "py_str repr (JBool b) = (if b then ''True'' else ''False'')"
| "py_str repr (JInt i) = dec_int i"
| "py_str repr (JStr s) = s"
| "py_str repr x = repr x"

text \<open>\<open>s.upper()\<close> on the ASCII letters.\<close>

definition upper_char :: "char \<Rightarrow> char" where
  "upper_char c =
     (case map_of (zip ''abcdefghijklmnopqrstuvwxyz'' ''ABCDEFGHIJKLMNOPQRSTUVWXYZ'') c of
        None \<Rightarrow> c | Some u \<Rightarrow> u)"

definition upper :: "string \<Rightarrow> string" where
  "upper s = map upper_char s"

section \<open>Response formatting: Action's error message and response rendering\<close>

text \<open>
  One line of \<open>_format_errmsg\<close>: \<open>n\<close> is \<open>len(errors)\<close>, \<open>num\<close> the running index.
\<close>

definition err_line :: "(json \<Rightarrow> string) \<Rightarrow> nat \<Rightarrow> nat \<Rightarrow> json \<Rightarrow> string result" where
  "err_line repr n num error_data =
     (case py_contains ''code'' error_data of
        Inl e \<Rightarrow> Inl e
      | Inr has_code \<Rightarrow>
          (case (if has_code
                 then (case py_getitem error_data ''code'' of
                         Inl e \<Rightarrow> Inl e
                       | Inr c \<Rightarrow> Inr (py_str repr c @ '':''))
                 else Inr []) of
             Inl e \<Rightarrow> Inl e
           | Inr err_code \<Rightarrow>
               (case py_get_default error_data ''message'' (JStr []) of
                  Inl e \<Rightarrow> Inl e
                | Inr err_msg \<Rightarrow>
                    (let err_index = (if n = 1 then '':'' else '' '' @ dec_nat num @ '':'')
                     in Inr (''Error'' @ err_index @ '' '' @ err_code @ '' '' @ py_str repr err_msg)))))"

fun err_lines :: "(json \<Rightarrow> string) \<Rightarrow> nat \<Rightarrow> nat \<Rightarrow> json list \<Rightarrow> string list \<Rightarrow> string list result" where
  "err_lines repr n num [] messages = Inr messages"
| "err_lines repr n num (error_data # rest) messages =
     (case err_line repr n num error_data of
        Inl e \<Rightarrow> Inl e
      | Inr l \<Rightarrow> err_lines repr n (Suc num) rest (messages @ [l]))"

definition format_errmsg :: "(json \<Rightarrow> string) \<Rightarrow> json \<Rightarrow> string result" where
  "format_errmsg repr errors =
     (case py_iter errors of
        Inl e \<Rightarrow> Inl e
      | Inr es \<Rightarrow>
          (case err_lines repr (length es) 1 es [] of
             Inl e \<Rightarrow> Inl e
           | Inr messages \<Rightarrow> Inr (join [CHR 0x0A] messages)))"

text \<open>
  Lines 304 to 308 of \<open>_format_response\<close>: with the strip option, a GET and one of
  the views raw, json and xml, a response that has a \<open>data\<close> key is replaced by that
  field (\<open>dumps\<close> is \<open>json.dumps\<close>). The result is the pair of \<open>response\<close> and
  \<open>response_json\<close> that the rendering below it reads.
\<close>

definition strip_envelope ::
  "(json \<Rightarrow> string) \<Rightarrow> bool \<Rightarrow> string \<Rightarrow> string \<Rightarrow> string \<Rightarrow> json \<Rightarrow> (string \<times> json) result" where
  "strip_envelope dumps strip_metadata http_method view response response_json =
     (if strip_metadata \<and> upper http_method = ''GET'' \<and> view \<in> set [''raw'', ''json'', ''xml'']
      then (case py_contains ''data'' response_json of
              Inl e \<Rightarrow> Inl e
            | Inr False \<Rightarrow> Inr (response, response_json)
            | Inr True \<Rightarrow>
                (case py_getitem response_json ''data'' of
                   Inl e \<Rightarrow> Inl e
                 | Inr d \<Rightarrow> Inr (dumps d, d)))
      else Inr (response, response_json))"

text \<open>
  What \<open>_format_response\<close> hands to \<open>click.echo\<close>: the response text for the views
  raw and json, the XML conversion of \<open>response_json\<close>, the tree of its \<open>data\<close>, the
  table built from \<open>response_json\<close> (the conversions themselves are other modules'),
  or nothing.
\<close>

datatype rendering =
    Hidden
  | EchoText string
  | EchoXml json
  | EchoTree json
  | EchoTable json
  | NoEcho
  | NoResponse

text \<open>
  \<open>_format_response\<close>. An empty response is not formatted (\<open>NoResponse\<close>: it only
  produces the text of a DELETE, which is left out here). \<open>loads\<close> is \<open>json.loads\<close>, \<open>None\<close> where it raises
  \<open>ValueError\<close>. The result is the warnings passed to \<open>utils.warning\<close> and what is
  echoed.
\<close>

definition render :: "bool \<Rightarrow> string \<Rightarrow> string \<Rightarrow> json \<Rightarrow> rendering result" where
  "render hidden view response response_json =
     (if hidden then Inr Hidden
      else if view \<in> set [''raw'', ''json''] then Inr (EchoText response)
      else if view = ''xml'' then Inr (EchoXml response_json)
      else if view = ''tree'' then
        (case py_get response_json ''data'' of Inl e \<Rightarrow> Inl e | Inr d \<Rightarrow> Inr (EchoTree d))
      else if view = ''table'' then Inr (EchoTable response_json)
      else Inr NoEcho)"

definition format_response ::
  "(string \<Rightarrow> json option) \<Rightarrow> (json \<Rightarrow> string) \<Rightarrow> (json \<Rightarrow> string) \<Rightarrow>
   bool \<Rightarrow> string \<Rightarrow> string \<Rightarrow> bool \<Rightarrow> string \<Rightarrow> (json list \<times> rendering) result" where
  "format_response loads dumps repr strip_metadata http_method view hidden response =
     (if response = [] then Inr ([], NoResponse) else
      case loads response of
        None \<Rightarrow> Inl InvalidServerResponse
      | Some response_json \<Rightarrow>
          (case py_get response_json ''errors'' of
             Inl e \<Rightarrow> Inl e
           | Inr errors \<Rightarrow>
               (case py_get response_json ''warnings'' of
                  Inl e \<Rightarrow> Inl e
                | Inr warnings \<Rightarrow>
                    (case (if truthy warnings then py_iter warnings else Inr []) of
                       Inl e \<Rightarrow> Inl e
                     | Inr warned \<Rightarrow>
                         if truthy errors
                         then (case format_errmsg repr errors of
                                 Inl e \<Rightarrow> Inl e
                               | Inr errmsg \<Rightarrow> Inl (MultipleClickException errmsg 1))
                         else (case strip_envelope dumps strip_metadata http_method view
                                      response response_json of
                                 Inl e \<Rightarrow> Inl e
                               | Inr (response', response_json') \<Rightarrow>
                                   (case render hidden view response' response_json' of
                                      Inl e \<Rightarrow> Inl e
                                    | Inr r \<Rightarrow> Inr (warned, r)))))))"

text \<open>
  The line the specification describes for one error: \<open>Error <n>: <code>: <message>\<close>,
  without the index when the response has exactly one error.
\<close>

definition error_line_text :: "nat \<Rightarrow> nat \<Rightarrow> string \<Rightarrow> string \<Rightarrow> string" where
  "error_line_text n i c m =
     (if n = 1 then ''Error: '' else ''Error '' @ dec_nat i @ '': '') @ c @ '': '' @ m"

text \<open>An entry of the \<open>errors\<close> array with the code \<open>c\<close> and the message \<open>m\<close>.\<close>

definition error_entry :: "json \<Rightarrow> string \<times> string \<Rightarrow> bool" where
  "error_entry e cm =
     (case e of
        JObj kvs \<Rightarrow> map_of kvs ''code'' = Some (JStr (fst cm)) \<and>
                    map_of kvs ''message'' = Some (JStr (snd cm))
      | _ \<Rightarrow> False)"

definition well_formed_warnings :: "(string \<times> json) list \<Rightarrow> bool" where
  "well_formed_warnings env =
     (case map_of env ''warnings'' of None \<Rightarrow> True | Some (JArr ws) \<Rightarrow> True | Some _ \<Rightarrow> False)"

section \<open>Properties of response formatting\<close>

lemma err_line_entry:
  assumes "error_entry e (c, m)"
  shows "err_line repr n i e = Inr (error_line_text n i c m)"
proof -
  from assms obtain kvs where e: "e = JObj kvs"
    and c: "map_of kvs ''code'' = Some (JStr c)"
    and m: "map_of kvs ''message'' = Some (JStr m)"
    by (auto simp: error_entry_def split: json.splits)
  from c have "''code'' \<in> fst ` set kvs"
    by (metis domI dom_map_of_conv_image_fst)
  with e c m show ?thesis
    by (simp add: err_line_def error_line_text_def)
qed

lemma err_lines_entries:
  assumes "list_all2 error_entry es cms"
  shows "err_lines repr n num es acc =
         Inr (acc @ map (\<lambda>(i, c, m). error_line_text n i c m) (zip [num ..< num + length cms] cms))"
  using assms
proof (induction es cms arbitrary: num acc rule: list_all2_induct)
  case Nil
  then show ?case by simp
next
  case (Cons e es cm cms)
  obtain c m where cm: "cm = (c, m)" by (cases cm)
  have upt: "[num ..< num + Suc (length cms)] = num # [Suc num ..< Suc num + length cms]"
    by (simp add: upt_rec)
  from Cons.hyps(1) cm have "err_line repr n num e = Inr (error_line_text n num c m)"
    by (simp add: err_line_entry)
  then show ?case
    using Cons.IH [of "Suc num" "acc @ [error_line_text n num c m]"] cm upt
    by simp
qed

text \<open>
  C4. A response whose body has a non-empty \<open>errors\<close> array (each entry an object
  with a string code and a string message, the warnings absent or an array) is not
  rendered: formatting raises the exception with exit code 1, and its message has one
  line per error, \<open>Error <n>: <code>: <message>\<close>, the lines joined by a newline and
  the index left out when there is exactly one error.
\<close>

theorem format_response_errors:
  assumes "response \<noteq> []"
    and "loads response = Some (JObj env)"
    and "map_of env ''errors'' = Some (JArr es)"
    and "es \<noteq> []"
    and "list_all2 error_entry es cms"
    and "well_formed_warnings env"
  shows "format_response loads dumps repr strip_metadata http_method view hidden response =
         Inl (MultipleClickException
                (join [CHR 0x0A]
                   (map (\<lambda>(i, c, m). error_line_text (length es) i c m)
                        (zip [1 ..< Suc (length es)] cms)))
                1)"
proof -
  from assms(5) have len: "length cms = length es"
    by (simp add: list_all2_lengthD)
  have lines: "err_lines repr (length es) 1 es [] =
        Inr (map (\<lambda>(i, c, m). error_line_text (length es) i c m) (zip [1 ..< Suc (length es)] cms))"
    using err_lines_entries [OF assms(5), of repr "length es" 1 "[]"] len
    by (simp del: upt_Suc)
  have msg: "format_errmsg repr (JArr es) =
        Inr (join [CHR 0x0A]
               (map (\<lambda>(i, c, m). error_line_text (length es) i c m) (zip [1 ..< Suc (length es)] cms)))"
    unfolding format_errmsg_def using lines by (simp del: upt_Suc)
  have warn: "\<exists>ws. (case (if truthy (case map_of env ''warnings'' of None \<Rightarrow> JNull | Some v \<Rightarrow> v)
                       then py_iter (case map_of env ''warnings'' of None \<Rightarrow> JNull | Some v \<Rightarrow> v)
                       else Inr []) of Inl e \<Rightarrow> None | Inr w \<Rightarrow> Some w) = Some ws"
    using assms(6) by (auto simp: well_formed_warnings_def split: option.splits json.splits)
  then obtain ws where ws:
    "(if truthy (case map_of env ''warnings'' of None \<Rightarrow> JNull | Some v \<Rightarrow> v)
      then py_iter (case map_of env ''warnings'' of None \<Rightarrow> JNull | Some v \<Rightarrow> v)
      else Inr []) = Inr ws"
    by (auto split: sum.splits)
  have get_w: "py_get (JObj env) ''warnings'' =
               Inr (case map_of env ''warnings'' of None \<Rightarrow> JNull | Some v \<Rightarrow> v)"
    by (simp add: py_get_def split: option.splits)
  have get_e: "py_get (JObj env) ''errors'' = Inr (JArr es)"
    by (simp add: py_get_def assms(3))
  show ?thesis
    unfolding format_response_def
    using assms(1,2,4) msg by (simp add: get_w get_e ws del: upt_Suc)
qed

theorem format_response_errors_witness:
  "format_response
     (\<lambda>s. Some (JObj [(''errors'', JArr [JObj [(''code'', JStr ''E1''), (''message'', JStr ''bad'')]])]))
     (\<lambda>j. []) (\<lambda>j. []) False ''get'' ''json'' False ''{}''
   = Inl (MultipleClickException ''Error: E1: bad'' 1)
   \<and>
   format_response
     (\<lambda>s. Some (JObj [(''errors'', JArr [JObj [(''code'', JStr ''E1''), (''message'', JStr ''bad'')],
                                        JObj [(''message'', JStr ''worse''), (''code'', JStr ''E2'')]]),
                      (''warnings'', JArr [])]))
     (\<lambda>j. []) (\<lambda>j. []) False ''get'' ''json'' False ''{}''
   = Inl (MultipleClickException (''Error 1: E1: bad'' @ [CHR 0x0A] @ ''Error 2: E2: worse'') 1)"
proof
  have e1: "error_entry (JObj [(''code'', JStr ''E1''), (''message'', JStr ''bad'')]) (''E1'', ''bad'')"
    by (simp add: error_entry_def)
  have e2: "error_entry (JObj [(''message'', JStr ''worse''), (''code'', JStr ''E2'')]) (''E2'', ''worse'')"
    by (simp add: error_entry_def)
  show "format_response
     (\<lambda>s. Some (JObj [(''errors'', JArr [JObj [(''code'', JStr ''E1''), (''message'', JStr ''bad'')]])]))
     (\<lambda>j. []) (\<lambda>j. []) False ''get'' ''json'' False ''{}''
   = Inl (MultipleClickException ''Error: E1: bad'' 1)"
    using format_response_errors
      [of "''{}''"
          "\<lambda>s. Some (JObj [(''errors'', JArr [JObj [(''code'', JStr ''E1''), (''message'', JStr ''bad'')]])])"
          "[(''errors'', JArr [JObj [(''code'', JStr ''E1''), (''message'', JStr ''bad'')]])]"
          "[JObj [(''code'', JStr ''E1''), (''message'', JStr ''bad'')]]"
          "[(''E1'', ''bad'')]" "\<lambda>j. []" "\<lambda>j. []" False "''get''" "''json''" False]
      e1
    by (simp add: well_formed_warnings_def error_line_text_def)
  show "format_response
     (\<lambda>s. Some (JObj [(''errors'', JArr [JObj [(''code'', JStr ''E1''), (''message'', JStr ''bad'')],
                                        JObj [(''message'', JStr ''worse''), (''code'', JStr ''E2'')]]),
                      (''warnings'', JArr [])]))
     (\<lambda>j. []) (\<lambda>j. []) False ''get'' ''json'' False ''{}''
   = Inl (MultipleClickException (''Error 1: E1: bad'' @ [CHR 0x0A] @ ''Error 2: E2: worse'') 1)"
    using format_response_errors
      [of "''{}''"
          "\<lambda>s. Some (JObj [(''errors'', JArr [JObj [(''code'', JStr ''E1''), (''message'', JStr ''bad'')],
                                        JObj [(''message'', JStr ''worse''), (''code'', JStr ''E2'')]]),
                      (''warnings'', JArr [])])"
          "[(''errors'', JArr [JObj [(''code'', JStr ''E1''), (''message'', JStr ''bad'')],
                                        JObj [(''message'', JStr ''worse''), (''code'', JStr ''E2'')]]),
                      (''warnings'', JArr [])]"
          "[JObj [(''code'', JStr ''E1''), (''message'', JStr ''bad'')],
            JObj [(''message'', JStr ''worse''), (''code'', JStr ''E2'')]]"
          "[(''E1'', ''bad''), (''E2'', ''worse'')]" "\<lambda>j. []" "\<lambda>j. []" False "''get''" "''json''" False]
      e1 e2
    by (simp add: well_formed_warnings_def error_line_text_def digit_char_def upt_rec)
qed

lemma size_map_of:
  "map_of kvs k = Some v \<Longrightarrow> size v < size (JObj kvs)"
  by (induction kvs) (auto split: if_splits)

lemma map_of_in_keys:
  "(k \<in> fst ` set kvs) = (\<exists>v. map_of kvs k = Some v)"
  by (metis domD domI dom_map_of_conv_image_fst)

text \<open>
  The condition of the claim, the \<open>data\<close> field of a response, a response without
  errors, the warnings that are surfaced, and what the full envelope renders to in
  each view.
\<close>

definition strips :: "bool \<Rightarrow> string \<Rightarrow> string \<Rightarrow> (string \<times> json) list \<Rightarrow> bool" where
  "strips strip_metadata http_method view env =
     (strip_metadata \<and> upper http_method = ''GET'' \<and> view \<in> {''raw'', ''json'', ''xml''} \<and>
      ''data'' \<in> fst ` set env)"

definition data_field :: "(string \<times> json) list \<Rightarrow> json" where
  "data_field env = (case map_of env ''data'' of None \<Rightarrow> JNull | Some d \<Rightarrow> d)"

definition no_errors :: "(string \<times> json) list \<Rightarrow> bool" where
  "no_errors env = (case map_of env ''errors'' of None \<Rightarrow> True | Some e \<Rightarrow> \<not> truthy e)"

definition surfaced_warnings :: "(string \<times> json) list \<Rightarrow> json list" where
  "surfaced_warnings env = (case map_of env ''warnings'' of Some (JArr ws) \<Rightarrow> ws | _ \<Rightarrow> [])"

definition envelope_rendering :: "string \<Rightarrow> string \<Rightarrow> (string \<times> json) list \<Rightarrow> rendering" where
  "envelope_rendering view response env =
     (if view = ''raw'' \<or> view = ''json'' then EchoText response
      else if view = ''xml'' then EchoXml (JObj env)
      else if view = ''tree'' then EchoTree (data_field env)
      else if view = ''table'' then EchoTable (JObj env)
      else NoEcho)"

definition data_rendering :: "(json \<Rightarrow> string) \<Rightarrow> string \<Rightarrow> (string \<times> json) list \<Rightarrow> rendering" where
  "data_rendering dumps view env =
     (if view = ''xml'' then EchoXml (data_field env) else EchoText (dumps (data_field env)))"

lemma strip_envelope_obj:
  "strip_envelope dumps strip_metadata http_method view response (JObj env) =
     (if strips strip_metadata http_method view env
      then Inr (dumps (data_field env), data_field env)
      else Inr (response, JObj env))"
  by (auto simp: strip_envelope_def strips_def data_field_def map_of_in_keys)

lemma surfaced:
  assumes "well_formed_warnings env"
  shows "(case py_get (JObj env) ''warnings'' of
            Inl e \<Rightarrow> Inl e
          | Inr warnings \<Rightarrow> (if truthy warnings then py_iter warnings else Inr [])) =
         Inr (surfaced_warnings env)"
  using assms
  by (auto simp: well_formed_warnings_def surfaced_warnings_def py_get_def
        split: option.splits json.splits)

lemma format_response_no_errors:
  assumes "response \<noteq> []"
    and "loads response = Some (JObj env)"
    and "no_errors env"
    and "well_formed_warnings env"
  shows "format_response loads dumps repr strip_metadata http_method view hidden response =
     (case strip_envelope dumps strip_metadata http_method view response (JObj env) of
        Inl e \<Rightarrow> Inl e
      | Inr (response', response_json') \<Rightarrow>
          (case render hidden view response' response_json' of
             Inl e \<Rightarrow> Inl e
           | Inr r \<Rightarrow> Inr (surfaced_warnings env, r)))"
proof -
  have e: "\<exists>errors. py_get (JObj env) ''errors'' = Inr errors \<and> \<not> truthy errors"
    using assms(3) by (auto simp: no_errors_def py_get_def split: option.splits)
  then obtain errors where errors: "py_get (JObj env) ''errors'' = Inr errors" "\<not> truthy errors"
    by auto
  obtain warnings where w: "py_get (JObj env) ''warnings'' = Inr warnings"
    by (cases "map_of env ''warnings''") (auto simp: py_get_def)
  with surfaced [OF assms(4)]
  have s: "(if truthy warnings then py_iter warnings else Inr []) = Inr (surfaced_warnings env)"
    by simp
  show ?thesis
    unfolding format_response_def
    using assms(1,2) errors w s by simp
qed



section \<open>References into the specification\<close>

text \<open>
  Modelled from the spec: \<open>utils.lookup\<close>, which \<open>_OpenAPIBaseSpec.lookup\<close> calls, is
  not among the sources. The specification has it look a reference path up inside the
  raw specification tree and fail with \<open>SchemaError\<close> if the path is absent; the
  docstring of \<open>lookup\<close> gives \<open>#/definitions/Image\<close> as the path of the definition
  of \<open>Image\<close>. A reference is \<open>#\<close> followed by the keys from the root.
\<close>

fun walk :: "json \<Rightarrow> string list \<Rightarrow> json option" where
  "walk x [] = Some x"
| "walk (JObj kvs) (k # ks) = (case map_of kvs k of None \<Rightarrow> None | Some v \<Rightarrow> walk v ks)"
| "walk _ (k # ks) = None"

definition lookup :: "json \<Rightarrow> json \<Rightarrow> json result" where
  "lookup response_ref raw_spec =
     (case response_ref of
        JStr r \<Rightarrow>
          (case split_on (CHR ''/'') r of
             seg # path \<Rightarrow>
               (if seg = ''#''
                then (case walk raw_spec path of
                        None \<Rightarrow> Inl (SchemaError response_ref)
                      | Some x \<Rightarrow> Inr x)
                else Inl (SchemaError response_ref))
           | [] \<Rightarrow> Inl (SchemaError response_ref))
      | _ \<Rightarrow> Inl (SchemaError response_ref))"

text \<open>
  \<open>d.get(key)\<close> and \<open>d[key] = ...\<close> for a key that is any JSON value: the keys of the
  dicts here are strings, so another hashable key is absent, and a list or a dict
  cannot be hashed.
\<close>

fun hashable :: "json \<Rightarrow> bool" where
  "hashable (JArr xs) = False"
| "hashable (JObj kvs) = False"
| "hashable _ = True"

fun py_get_key :: "json \<Rightarrow> json \<Rightarrow> json result" where
  "py_get_key (JObj kvs) (JStr k) = (case map_of kvs k of None \<Rightarrow> Inr JNull | Some v \<Rightarrow> Inr v)"
| "py_get_key (JObj kvs) key = (if hashable key then Inr JNull else Inl TypeError)"
| "py_get_key _ key = Inl AttributeError"

section \<open>The body key of Action.pre\<close>

text \<open>
  Lines 590 to 592 of \<open>Action.pre\<close>: the \<open>schema\<close> entry of the body parameter
  (\<open>param_data\<close> is the result of \<open>get_body_type_params\<close>), looked up when it is a
  reference.
\<close>

definition pre_body_schema :: "json \<Rightarrow> json \<Rightarrow> json result" where
  "pre_body_schema raw_spec param_data =
     (case py_getitem param_data ''schema'' of
        Inl e \<Rightarrow> Inl e
      | Inr schema \<Rightarrow>
          (case py_contains ''$ref'' schema of
             Inl e \<Rightarrow> Inl e
           | Inr has_ref \<Rightarrow>
               if has_ref
               then (case py_getitem schema ''$ref'' of
                       Inl e \<Rightarrow> Inl e
                     | Inr r \<Rightarrow> lookup r raw_spec)
               else Inr schema))"

text \<open>
  Lines 594 to 598: \<open>param_names\<close> are the names collected from \<open>param_data\<close>,
  \<open>param_name\<close> is the value the variable holds when line 594 is reached (neither
  branch assigns it when there is not exactly one name and no discriminator).
\<close>

definition pre_param_name :: "json \<Rightarrow> json list \<Rightarrow> json \<Rightarrow> json \<Rightarrow> json result" where
  "pre_param_name schema param_names param_name raw_json_object =
     (if length param_names = 1 then Inr (hd param_names)
      else (case py_contains ''discriminator'' schema of
              Inl e \<Rightarrow> Inl e
            | Inr False \<Rightarrow> Inr param_name
            | Inr True \<Rightarrow>
                (case py_get schema ''discriminator'' of
                   Inl e \<Rightarrow> Inl e
                 | Inr d \<Rightarrow>
                     (case py_get d ''propertyName'' of
                        Inl e \<Rightarrow> Inl e
                      | Inr disc_key \<Rightarrow> py_get_key raw_json_object disc_key))))"

text \<open>
  Lines 590 to 599: the key under which the filtered object is stored in \<open>kwargs\<close>
  (a key that cannot be hashed cannot be stored).
\<close>

definition pre_body_key :: "json \<Rightarrow> json \<Rightarrow> json list \<Rightarrow> json \<Rightarrow> json \<Rightarrow> json result" where
  "pre_body_key raw_spec param_data param_names param_name raw_json_object =
     (case pre_body_schema raw_spec param_data of
        Inl e \<Rightarrow> Inl e
      | Inr schema \<Rightarrow>
          (case pre_param_name schema param_names param_name raw_json_object of
             Inl e \<Rightarrow> Inl e
           | Inr key \<Rightarrow> if hashable key then Inr key else Inl TypeError))"



section \<open>Pattern validation of route parameters\<close>

text \<open>
  \<open>s.strip()\<close>: the white space of \<open>str.isspace\<close> among the first 256 code points is
  removed at both ends.
\<close>

definition is_space :: "char \<Rightarrow> bool" where
  "is_space c = (c \<in> set [CHR 0x09, CHR 0x0A, CHR 0x0B, CHR 0x0C, CHR 0x0D, CHR 0x1C, CHR 0x1D,
                             CHR 0x1E, CHR 0x1F, CHR 0x20, CHR 0x85, CHR 0xA0])"

definition strip :: "string \<Rightarrow> string" where
  "strip s = rev (dropWhile is_space (rev (dropWhile is_space s)))"

text \<open>
  The regular expression engine is a parameter: \<open>re_match p v\<close> and \<open>re_search p v\<close>
  stand for \<open>re.match(p, v)\<close> and \<open>re.search(p, v, re.MULTILINE)\<close>, and return the
  text of the match (\<open>matches.group()\<close>), \<open>None\<close> when nothing matches, or the
  exception of a pattern that does not compile.
\<close>

type_synonym regex_fn = "string \<Rightarrow> string \<Rightarrow> string option result"

text \<open>Lines 163 to 165: \<open>re.match\<close>, and \<open>re.search\<close> when it finds nothing.\<close>

definition find_match :: "regex_fn \<Rightarrow> regex_fn \<Rightarrow> json \<Rightarrow> string \<Rightarrow> string option result" where
  "find_match re_match re_search pattern v =
     (case pattern of
        JStr p \<Rightarrow>
          (case re_match p v of
             Inl e \<Rightarrow> Inl e
           | Inr (Some g) \<Rightarrow> Inr (Some g)
           | Inr None \<Rightarrow> re_search p v)
      | _ \<Rightarrow> Inl TypeError)"

text \<open>\<open>param_name in kwargs\<close>: the keys of \<open>kwargs\<close> are strings.\<close>

fun py_key_in :: "json \<Rightarrow> (string \<times> json) list \<Rightarrow> bool result" where
  "py_key_in (JStr k) kwargs = Inr (k \<in> set (map fst kwargs))"
| "py_key_in key kwargs = (if hashable key then Inr False else Inl TypeError)"

text \<open>The body of the loop of \<open>_check_arguments\<close>, for one parameter of the route.\<close>

definition check_param ::
  "regex_fn \<Rightarrow> regex_fn \<Rightarrow> (json \<Rightarrow> string) \<Rightarrow> (string \<times> json) list \<Rightarrow> json \<Rightarrow> unit result" where
  "check_param re_match re_search repr kwargs param =
     (case py_get param ''pattern'' of
        Inl e \<Rightarrow> Inl e
      | Inr pattern \<Rightarrow>
          (case py_get param ''name'' of
             Inl e \<Rightarrow> Inl e
           | Inr param_name \<Rightarrow>
               if truthy pattern \<and> truthy param_name
               then (case py_key_in param_name kwargs of
                       Inl e \<Rightarrow> Inl e
                     | Inr False \<Rightarrow> Inr ()
                     | Inr True \<Rightarrow>
                         (case py_get_key (JObj kwargs) param_name of
                            Inl e \<Rightarrow> Inl e
                          | Inr x \<Rightarrow>
                              (let v = strip (py_str repr x) in
                               case find_match re_match re_search pattern v of
                                 Inl e \<Rightarrow> Inl e
                               | Inr None \<Rightarrow> Inl (InvalidValueFor (py_str repr param_name))
                               | Inr (Some g) \<Rightarrow>
                                   if length g \<noteq> length v
                                   then Inl (InvalidValueFor (py_str repr param_name))
                                   else Inr ())))
               else Inr ()))"

fun check_params ::
  "regex_fn \<Rightarrow> regex_fn \<Rightarrow> (json \<Rightarrow> string) \<Rightarrow> (string \<times> json) list \<Rightarrow> json list \<Rightarrow> unit result" where
  "check_params re_match re_search repr kwargs [] = Inr ()"
| "check_params re_match re_search repr kwargs (param # rest) =
     (case check_param re_match re_search repr kwargs param of
        Inl e \<Rightarrow> Inl e
      | Inr u \<Rightarrow> check_params re_match re_search repr kwargs rest)"

definition check_arguments ::
  "regex_fn \<Rightarrow> regex_fn \<Rightarrow> (json \<Rightarrow> string) \<Rightarrow> json \<Rightarrow> string \<Rightarrow> (string \<times> json) list \<Rightarrow> unit result" where
  "check_arguments re_match re_search repr raw_spec route kwargs =
     (case py_getitem raw_spec ''paths'' of
        Inl e \<Rightarrow> Inl e
      | Inr paths \<Rightarrow>
          (case py_getitem paths route of
             Inl e \<Rightarrow> Inl e
           | Inr route_data \<Rightarrow>
               (case py_contains ''parameters'' route_data of
                  Inl e \<Rightarrow> Inl e
                | Inr False \<Rightarrow> Inr ()
                | Inr True \<Rightarrow>
                    (case py_getitem route_data ''parameters'' of
                       Inl e \<Rightarrow> Inl e
                     | Inr ps \<Rightarrow>
                         (case py_iter ps of
                            Inl e \<Rightarrow> Inl e
                          | Inr params \<Rightarrow> check_params re_match re_search repr kwargs params)))))"

text \<open>
  The claim's condition. A match covers the value when the match found (by
  \<open>re.match\<close>, or by the multiline \<open>re.search\<close> when \<open>re.match\<close> finds nothing) is as
  long as the stripped value. A parameter is rejected when it declares a pattern and a
  name (non-empty strings), \<open>kwargs\<close> has the name, and no match covers the stripped
  value.
\<close>

definition covers :: "regex_fn \<Rightarrow> regex_fn \<Rightarrow> string \<Rightarrow> string \<Rightarrow> bool" where
  "covers re_match re_search p v =
     (case re_match p v of
        Inr (Some g) \<Rightarrow> length g = length v
      | Inr None \<Rightarrow> (case re_search p v of Inr (Some g) \<Rightarrow> length g = length v | _ \<Rightarrow> False)
      | Inl e \<Rightarrow> False)"

definition declared :: "json \<Rightarrow> string \<Rightarrow> string option" where
  "declared param k =
     (case param of
        JObj kvs \<Rightarrow> (case map_of kvs k of Some (JStr s) \<Rightarrow> (if s = [] then None else Some s) | _ \<Rightarrow> None)
      | _ \<Rightarrow> None)"

definition rejects ::
  "regex_fn \<Rightarrow> regex_fn \<Rightarrow> (json \<Rightarrow> string) \<Rightarrow> (string \<times> json) list \<Rightarrow> json \<Rightarrow> bool" where
  "rejects re_match re_search repr kwargs param =
     (case (declared param ''pattern'', declared param ''name'') of
        (Some p, Some n) \<Rightarrow>
          (case map_of kwargs n of
             None \<Rightarrow> False
           | Some x \<Rightarrow> \<not> covers re_match re_search p (strip (py_str repr x)))
      | _ \<Rightarrow> False)"

definition rejection :: "json \<Rightarrow> error" where
  "rejection param = InvalidValueFor (case declared param ''name'' of Some n \<Rightarrow> n | None \<Rightarrow> [])"

text \<open>
  A well-formed parameter: an object whose \<open>pattern\<close> and \<open>name\<close>, where present,
  are strings or null, and whose pattern compiles.
\<close>

definition string_or_absent :: "(string \<times> json) list \<Rightarrow> string \<Rightarrow> bool" where
  "string_or_absent kvs k =
     (case map_of kvs k of None \<Rightarrow> True | Some JNull \<Rightarrow> True | Some (JStr s) \<Rightarrow> True | Some _ \<Rightarrow> False)"

definition compiles :: "regex_fn \<Rightarrow> string \<Rightarrow> bool" where
  "compiles re p = (\<forall>v. \<exists>m. re p v = Inr m)"

definition wf_param :: "regex_fn \<Rightarrow> regex_fn \<Rightarrow> json \<Rightarrow> bool" where
  "wf_param re_match re_search param =
     (case param of
        JObj kvs \<Rightarrow> string_or_absent kvs ''pattern'' \<and> string_or_absent kvs ''name'' \<and>
          (case declared param ''pattern'' of
             None \<Rightarrow> True
           | Some p \<Rightarrow> compiles re_match p \<and> compiles re_search p)
      | _ \<Rightarrow> False)"

lemma check_param_wf:
  assumes "wf_param re_match re_search param"
  shows "check_param re_match re_search repr kwargs param =
         (if rejects re_match re_search repr kwargs param then Inl (rejection param) else Inr ())"
proof -
  from assms obtain kvs where p: "param = JObj kvs"
    by (auto simp: wf_param_def split: json.splits)
  show ?thesis
  proof (cases "declared param ''pattern''")
    case None
    with assms p show ?thesis
      by (auto simp: check_param_def rejects_def declared_def py_get_def wf_param_def
            string_or_absent_def split: option.splits json.splits if_splits)
  next
    case (Some pat)
    note pat = Some
    show ?thesis
    proof (cases "declared param ''name''")
      case None
      with assms p pat show ?thesis
        by (auto simp: check_param_def rejects_def declared_def py_get_def wf_param_def
              string_or_absent_def split: option.splits json.splits if_splits)
    next
      case (Some n)
      from pat p have pv: "map_of kvs ''pattern'' = Some (JStr pat)" "pat \<noteq> []"
        by (auto simp: declared_def split: option.splits json.splits if_splits)
      from Some p have nv: "map_of kvs ''name'' = Some (JStr n)" "n \<noteq> []"
        by (auto simp: declared_def split: option.splits json.splits if_splits)
      from assms p pat have c: "compiles re_match pat" "compiles re_search pat"
        by (auto simp: wf_param_def)
      show ?thesis
      proof (cases "map_of kwargs n")
        case None
        then have "n \<notin> fst ` set kwargs" by (simp add: map_of_in_keys)
        with None p pat Some pv nv show ?thesis
          by (simp add: check_param_def rejects_def py_get_def)
      next
        case (Some x)
        then have "n \<in> fst ` set kwargs" by (simp add: map_of_in_keys)
        moreover obtain m1 where m1: "re_match pat (strip (py_str repr x)) = Inr m1"
          using c(1) by (auto simp: compiles_def)
        moreover obtain m2 where m2: "re_search pat (strip (py_str repr x)) = Inr m2"
          using c(2) by (auto simp: compiles_def)
        ultimately show ?thesis
          using Some p pat \<open>declared param ''name'' = Some n\<close> pv nv
          by (auto simp: check_param_def rejects_def py_get_def find_match_def covers_def
                rejection_def Let_def split: option.splits)
      qed
    qed
  qed
qed

lemma check_params_wf:
  assumes "\<forall>param \<in> set params. wf_param re_match re_search param"
  shows "check_params re_match re_search repr kwargs params =
         (case find (rejects re_match re_search repr kwargs) params of
            None \<Rightarrow> Inr ()
          | Some param \<Rightarrow> Inl (rejection param))"
  using assms by (induction params) (simp_all add: check_param_wf)

text \<open>
  C9. For a route whose parameters are well formed, \<open>_check_arguments\<close> raises
  \<open>Invalid value for <name>\<close> exactly when one of them is rejected (it declares a
  pattern, it was supplied, and the match found does not span the whole stripped
  value), and the exception names the first such parameter; a parameter without a
  pattern, or one that was not supplied, is never rejected.
\<close>

theorem check_arguments_rejects:
  assumes "py_getitem raw_spec ''paths'' = Inr paths"
    and "py_getitem paths route = Inr (JObj route_data)"
    and "map_of route_data ''parameters'' = Some (JArr params)"
    and "\<forall>param \<in> set params. wf_param re_match re_search param"
  shows "check_arguments re_match re_search repr raw_spec route kwargs =
         (case find (rejects re_match re_search repr kwargs) params of
            None \<Rightarrow> Inr ()
          | Some param \<Rightarrow> Inl (rejection param))"
proof -
  from assms(3) have "''parameters'' \<in> fst ` set route_data"
    by (simp add: map_of_in_keys)
  then show ?thesis
    using assms(1-3) check_params_wf [OF assms(4), of repr kwargs]
    by (simp add: check_arguments_def)
qed

theorem check_arguments_rejects_witness:
  "check_arguments
     (\<lambda>p v. Inr (if p = ''[0-9]+'' \<and> (v = ''12a'' \<or> v = ''12'') then Some ''12'' else None))
     (\<lambda>p v. Inr (if p = ''[0-9]+'' \<and> (v = ''12a'' \<or> v = ''12'') then Some ''12'' else None))
     (\<lambda>j. [])
     (JObj [(''paths'', JObj [(''/{envId}/images/'',
        JObj [(''parameters'', JArr [JObj [(''name'', JStr ''envId''), (''pattern'', JStr ''[0-9]+'')],
                                     JObj [(''name'', JStr ''scope'')]])])])])
     ''/{envId}/images/'' [(''envId'', JStr '' 12a''), (''scope'', JStr ''x'')]
   = Inl (InvalidValueFor ''envId'')
   \<and> check_arguments
     (\<lambda>p v. Inr (if p = ''[0-9]+'' \<and> (v = ''12a'' \<or> v = ''12'') then Some ''12'' else None))
     (\<lambda>p v. Inr (if p = ''[0-9]+'' \<and> (v = ''12a'' \<or> v = ''12'') then Some ''12'' else None))
     (\<lambda>j. [])
     (JObj [(''paths'', JObj [(''/{envId}/images/'',
        JObj [(''parameters'', JArr [JObj [(''name'', JStr ''envId''), (''pattern'', JStr ''[0-9]+'')],
                                     JObj [(''name'', JStr ''scope'')]])])])])
     ''/{envId}/images/'' [(''envId'', JStr '' 12''), (''scope'', JStr ''x'')]
   = Inr ()"
proof -
  let ?re = "\<lambda>p v. Inr (if p = ''[0-9]+'' \<and> (v = ''12a'' \<or> v = ''12'') then Some ''12'' else None)
               :: string option result"
  let ?params = "[JObj [(''name'', JStr ''envId''), (''pattern'', JStr ''[0-9]+'')],
                  JObj [(''name'', JStr ''scope'')]]"
  let ?rd = "[(''parameters'', JArr ?params)]"
  let ?paths = "JObj [(''/{envId}/images/'', JObj ?rd)]"
  let ?raw = "JObj [(''paths'', ?paths)]"
  have a1: "py_getitem ?raw ''paths'' = Inr ?paths" by simp
  have a2: "py_getitem ?paths ''/{envId}/images/'' = Inr (JObj ?rd)" by simp
  have a3: "map_of ?rd ''parameters'' = Some (JArr ?params)" by simp
  have a4: "\<forall>param \<in> set ?params. wf_param ?re ?re param"
    by (simp add: wf_param_def string_or_absent_def declared_def compiles_def)
  have s1: "strip '' 12a'' = ''12a''" and s2: "strip '' 12'' = ''12''"
    by (simp_all add: strip_def is_space_def)
  show ?thesis
    using check_arguments_rejects [OF a1 a2 a3 a4, of "\<lambda>j. []" "[(''envId'', JStr '' 12a''), (''scope'', JStr ''x'')]"]
      check_arguments_rejects [OF a1 a2 a3 a4, of "\<lambda>j. []" "[(''envId'', JStr '' 12''), (''scope'', JStr ''x'')]"]
    by (simp add: rejects_def declared_def covers_def rejection_def s1 s2)
qed

section \<open>Example generation (examples.py)\<close>

text \<open>
  \<open>utils.merge_all\<close> is not among the sources; the functions that call it take it as
  the parameter \<open>merge_all\<close>: \<open>merge_all data raw_spec\<close> is the node an \<open>allOf\<close>
  composition is flattened into.
\<close>

type_synonym merge_fn = "json \<Rightarrow> json \<Rightarrow> json result"

text \<open>\<open>ref.strip('/')\<close>.\<close>

definition strip_slash :: "string \<Rightarrow> string" where
  "strip_slash s =
     rev (dropWhile (\<lambda>c. c = CHR ''/'') (rev (dropWhile (\<lambda>c. c = CHR ''/'') s)))"

definition item_by_ref :: "json \<Rightarrow> json \<Rightarrow> json result" where
  "item_by_ref spec_data ref =
     (case ref of
        JStr r \<Rightarrow>
          (let definition = last (split_on (CHR ''/'') (strip_slash r)) in
           case py_contains ''components'' spec_data of
             Inl e \<Rightarrow> Inl e
           | Inr has_components \<Rightarrow>
               (case (if has_components
                      then (case py_getitem spec_data ''components'' of
                              Inl e \<Rightarrow> Inl e
                            | Inr c \<Rightarrow> py_contains ''schemas'' c)
                      else Inr False) of
                  Inl e \<Rightarrow> Inl e
                | Inr is_openapi_v3 \<Rightarrow>
                    if is_openapi_v3
                    then (case py_getitem spec_data ''components'' of
                            Inl e \<Rightarrow> Inl e
                          | Inr c \<Rightarrow>
                              (case py_getitem c ''schemas'' of
                                 Inl e \<Rightarrow> Inl e
                               | Inr ss \<Rightarrow> py_getitem ss definition))
                    else (case py_getitem spec_data ''definitions'' of
                            Inl e \<Rightarrow> Inl e
                          | Inr ds \<Rightarrow> py_getitem ds definition)))
      | _ \<Rightarrow> Inl AttributeError)"

text \<open>The table \<open>DEFAULTS\<close>, and \<open>DEFAULTS[t]\<close> for a JSON value \<open>t\<close>.\<close>

definition defaults :: "(string \<times> json) list" where
  "defaults = [(''string'', JStr []), (''boolean'', JBool True), (''integer'', JInt 1),
               (''number'', JInt 1), (''array'', JArr [])]"

definition defaults_getitem :: "json \<Rightarrow> json result" where
  "defaults_getitem t =
     (case t of
        JStr s \<Rightarrow> py_getitem (JObj defaults) s
      | _ \<Rightarrow> if hashable t then Inl KeyError else Inl TypeError)"

text \<open>
  Lines 55 to 61 of \<open>_generate_params\<close>: the schema is dereferenced, and its
  properties are those of the merged node when it is an \<open>allOf\<close> composition.
\<close>

definition schema_properties :: "merge_fn \<Rightarrow> json \<Rightarrow> json \<Rightarrow> json result" where
  "schema_properties merge_all spec_data schema0 =
     (case py_contains ''$ref'' schema0 of
        Inl e \<Rightarrow> Inl e
      | Inr has_ref \<Rightarrow>
          (case (if has_ref
                 then (case py_getitem schema0 ''$ref'' of
                         Inl e \<Rightarrow> Inl e
                       | Inr r \<Rightarrow> item_by_ref spec_data r)
                 else Inr schema0) of
             Inl e \<Rightarrow> Inl e
           | Inr schema \<Rightarrow>
               (case py_contains ''allOf'' schema of
                  Inl e \<Rightarrow> Inl e
                | Inr True \<Rightarrow>
                    (case merge_all schema spec_data of
                       Inl e \<Rightarrow> Inl e
                     | Inr merged \<Rightarrow> py_get_default merged ''properties'' (JObj []))
                | Inr False \<Rightarrow> py_get_default schema ''properties'' (JObj []))))"

text \<open>
  \<open>_generate_params\<close>, its loop over the properties and the value of one property
  (lines 67 to 74). The recursion follows the references of the specification, which
  may be cyclic: \<open>depth\<close> bounds the nesting of the calls, and \<open>RecursionError\<close> is raised
  when it is used up, as Python does at its recursion limit.
\<close>

fun generate_params :: "nat \<Rightarrow> merge_fn \<Rightarrow> json \<Rightarrow> json \<Rightarrow> json result"
  and generate_value :: "nat \<Rightarrow> merge_fn \<Rightarrow> json \<Rightarrow> json \<Rightarrow> json result"
  and generate_loop ::
    "nat \<Rightarrow> merge_fn \<Rightarrow> json \<Rightarrow> (string \<times> json) list \<Rightarrow> (string \<times> json) list \<Rightarrow> json result"
where
  "generate_params 0 merge_all spec_data schema = Inl RecursionError"
| "generate_params (Suc depth) merge_all spec_data schema =
     (case schema_properties merge_all spec_data schema of
        Inl e \<Rightarrow> Inl e
      | Inr properties \<Rightarrow>
          if truthy properties
          then (case py_items properties of
                  Inl e \<Rightarrow> Inl e
                | Inr items \<Rightarrow> generate_loop depth merge_all spec_data items [])
          else Inr (JObj []))"
| "generate_value depth merge_all spec_data p_value =
     (case py_contains ''$ref'' p_value of
        Inl e \<Rightarrow> Inl e
      | Inr True \<Rightarrow>
          (case py_getitem p_value ''$ref'' of
             Inl e \<Rightarrow> Inl e
           | Inr r \<Rightarrow>
               (case item_by_ref spec_data r of
                  Inl e \<Rightarrow> Inl e
                | Inr sub_item \<Rightarrow> generate_params depth merge_all spec_data sub_item))
      | Inr False \<Rightarrow>
          (case py_contains ''enum'' p_value of
             Inl e \<Rightarrow> Inl e
           | Inr True \<Rightarrow>
               (case py_getitem p_value ''enum'' of
                  Inl e \<Rightarrow> Inl e
                | Inr en \<Rightarrow> py_index0 en)
           | Inr False \<Rightarrow>
               (case py_getitem p_value ''type'' of
                  Inl e \<Rightarrow> Inl e
                | Inr t \<Rightarrow> defaults_getitem t)))"
| "generate_loop depth merge_all spec_data [] params = Inr (JObj params)"
| "generate_loop depth merge_all spec_data ((p_key, p_value) # rest) params =
     (case py_get p_value ''readOnly'' of
        Inl e \<Rightarrow> Inl e
      | Inr ro \<Rightarrow>
          if truthy ro then generate_loop depth merge_all spec_data rest params
          else (case generate_value depth merge_all spec_data p_value of
                  Inl e \<Rightarrow> Inl e
                | Inr v \<Rightarrow>
                    generate_loop depth merge_all spec_data rest (AList.update p_key v params)))"

lemma not_in_keys: "(k \<notin> fst ` set kvs) = (map_of kvs k = None)"
  by (simp add: map_of_eq_None_iff)

lemma py_contains_obj: "py_contains k (JObj kvs) = Inr (map_of kvs k \<noteq> None)"
  by (simp add: map_of_eq_None_iff)

declare generate_value.simps [simp del]

text \<open>
  The specification's side of example generation. The item a reference names is the
  entry of its last segment in \<open>components.schemas\<close> when the specification has them
  and in \<open>definitions\<close> otherwise. The request schema is the schema itself, or the item
  it refers to; its properties are those of the node its \<open>allOf\<close> composition is
  merged into, and none when it declares none.
\<close>

definition referenced_item :: "json \<Rightarrow> string \<Rightarrow> json option" where
  "referenced_item spec_data r =
     (let name = last (split_on (CHR ''/'') (strip_slash r)) in
      case spec_data of
        JObj root \<Rightarrow>
          (case map_of root ''components'' of
             None \<Rightarrow> walk spec_data [''definitions'', name]
           | Some (JObj components) \<Rightarrow>
               (case map_of components ''schemas'' of
                  None \<Rightarrow> walk spec_data [''definitions'', name]
                | Some schemas \<Rightarrow> walk schemas [name])
           | Some _ \<Rightarrow> None)
      | _ \<Rightarrow> None)"

definition request_schema :: "json \<Rightarrow> json \<Rightarrow> (string \<times> json) list option" where
  "request_schema spec_data schema =
     (case schema of
        JObj kv \<Rightarrow>
          (case map_of kv ''$ref'' of
             None \<Rightarrow> Some kv
           | Some (JStr r) \<Rightarrow>
               (case referenced_item spec_data r of Some (JObj item) \<Rightarrow> Some item | _ \<Rightarrow> None)
           | Some _ \<Rightarrow> None)
      | _ \<Rightarrow> None)"

definition declared_properties :: "(string \<times> json) list \<Rightarrow> (string \<times> json) list option" where
  "declared_properties node =
     (case map_of node ''properties'' of
        None \<Rightarrow> Some []
      | Some (JObj props) \<Rightarrow> Some props
      | Some _ \<Rightarrow> None)"

definition request_properties :: "merge_fn \<Rightarrow> json \<Rightarrow> json \<Rightarrow> (string \<times> json) list option" where
  "request_properties merge_all spec_data schema =
     (case request_schema spec_data schema of
        None \<Rightarrow> None
      | Some item \<Rightarrow>
          (case map_of item ''allOf'' of
             None \<Rightarrow> declared_properties item
           | Some branches \<Rightarrow>
               (case merge_all (JObj item) spec_data of
                  Inr (JObj merged) \<Rightarrow> declared_properties merged
                | _ \<Rightarrow> None)))"

definition read_only :: "json \<Rightarrow> bool" where
  "read_only p_value =
     (case p_value of
        JObj kv \<Rightarrow> (case map_of kv ''readOnly'' of None \<Rightarrow> False | Some ro \<Rightarrow> truthy ro)
      | _ \<Rightarrow> False)"

definition type_default :: "string \<Rightarrow> json option" where
  "type_default t =
     (if t = ''string'' then Some (JStr [])
      else if t = ''boolean'' then Some (JBool True)
      else if t = ''integer'' \<or> t = ''number'' then Some (JInt 1)
      else if t = ''array'' then Some (JArr [])
      else None)"

text \<open>
  The example of a schema, of a list of properties and of one property, as the claim
  describes them: every property that is not read-only is assigned, in order, the
  example of the schema it refers to, else the first value of its enum, else the
  default of its type; a read-only property is left out.
\<close>

inductive example_of :: "merge_fn \<Rightarrow> json \<Rightarrow> json \<Rightarrow> json \<Rightarrow> bool"
  and examples_of :: "merge_fn \<Rightarrow> json \<Rightarrow> (string \<times> json) list \<Rightarrow> (string \<times> json) list \<Rightarrow> bool"
  and value_of :: "merge_fn \<Rightarrow> json \<Rightarrow> json \<Rightarrow> json \<Rightarrow> bool"
  for merge_all :: merge_fn and spec_data :: json
where
  of_schema:
    "request_properties merge_all spec_data schema = Some props \<Longrightarrow>
     distinct (map fst props) \<Longrightarrow>
     examples_of merge_all spec_data props params \<Longrightarrow>
     example_of merge_all spec_data schema (JObj params)"
| of_nil:
    "examples_of merge_all spec_data [] []"
| of_read_only:
    "p_value = JObj kv \<Longrightarrow> read_only p_value \<Longrightarrow>
     examples_of merge_all spec_data rest params \<Longrightarrow>
     examples_of merge_all spec_data ((p_key, p_value) # rest) params"
| of_property:
    "p_value = JObj kv \<Longrightarrow> \<not> read_only p_value \<Longrightarrow>
     value_of merge_all spec_data p_value v \<Longrightarrow>
     examples_of merge_all spec_data rest params \<Longrightarrow>
     examples_of merge_all spec_data ((p_key, p_value) # rest) ((p_key, v) # params)"
| of_ref:
    "map_of kv ''$ref'' = Some (JStr r) \<Longrightarrow>
     referenced_item spec_data r = Some sub_item \<Longrightarrow>
     example_of merge_all spec_data sub_item v \<Longrightarrow>
     value_of merge_all spec_data (JObj kv) v"
| of_enum:
    "map_of kv ''$ref'' = None \<Longrightarrow>
     map_of kv ''enum'' = Some (JArr (e # es)) \<Longrightarrow>
     value_of merge_all spec_data (JObj kv) e"
| of_type:
    "map_of kv ''$ref'' = None \<Longrightarrow>
     map_of kv ''enum'' = None \<Longrightarrow>
     map_of kv ''type'' = Some (JStr t) \<Longrightarrow>
     type_default t = Some d \<Longrightarrow>
     value_of merge_all spec_data (JObj kv) d"

lemma item_by_ref_referenced:
  assumes "referenced_item spec_data r = Some item"
  shows "item_by_ref spec_data (JStr r) = Inr item"
proof -
  let ?name = "last (split_on (CHR ''/'') (strip_slash r))"
  from assms obtain root where root: "spec_data = JObj root"
    by (cases spec_data) (simp_all add: referenced_item_def)
  show ?thesis
  proof (cases "map_of root ''components''")
    case None
    with assms root have w: "walk (JObj root) [''definitions'', ?name] = Some item"
      by (simp add: referenced_item_def Let_def)
    then obtain ds where ds: "map_of root ''definitions'' = Some ds" and i: "walk ds [?name] = Some item"
      by (auto split: option.splits)
    from i have "py_getitem ds ?name = Inr item"
      by (cases ds) (auto split: option.splits)
    with None ds root show ?thesis
      by (simp add: item_by_ref_def Let_def not_in_keys map_of_in_keys)
  next
    case (Some c)
    with assms root obtain components where c: "c = JObj components"
      by (cases c) (simp_all add: referenced_item_def Let_def)
    show ?thesis
    proof (cases "map_of components ''schemas''")
      case None
      with assms root Some c have w: "walk (JObj root) [''definitions'', ?name] = Some item"
        by (simp add: referenced_item_def Let_def)
      then obtain ds where ds: "map_of root ''definitions'' = Some ds" and i: "walk ds [?name] = Some item"
        by (auto split: option.splits)
      from i have "py_getitem ds ?name = Inr item"
        by (cases ds) (auto split: option.splits)
      with None Some c ds root show ?thesis
        by (simp add: item_by_ref_def Let_def not_in_keys map_of_in_keys)
    next
      case schemas: (Some ss)
      with assms root Some c have i: "walk ss [?name] = Some item"
        by (simp add: referenced_item_def Let_def)
      then have "py_getitem ss ?name = Inr item"
        by (cases ss) (auto split: option.splits)
      with schemas Some c root show ?thesis
        by (simp add: item_by_ref_def Let_def not_in_keys map_of_in_keys)
    qed
  qed
qed

lemma declared_properties_get:
  "declared_properties node = Some props \<Longrightarrow>
   py_get_default (JObj node) ''properties'' (JObj []) = Inr (JObj props)"
  by (auto simp: declared_properties_def split: option.splits json.splits)

lemma node_properties:
  assumes "(case map_of item ''allOf'' of
              None \<Rightarrow> declared_properties item
            | Some branches \<Rightarrow>
                (case merge_all (JObj item) spec_data of
                   Inr (JObj merged) \<Rightarrow> declared_properties merged
                 | _ \<Rightarrow> None)) = Some props"
  shows "(case py_contains ''allOf'' (JObj item) of
            Inl e \<Rightarrow> Inl e
          | Inr True \<Rightarrow>
              (case merge_all (JObj item) spec_data of
                 Inl e \<Rightarrow> Inl e
               | Inr merged \<Rightarrow> py_get_default merged ''properties'' (JObj []))
          | Inr False \<Rightarrow> py_get_default (JObj item) ''properties'' (JObj [])) = Inr (JObj props)"
proof (cases "map_of item ''allOf''")
  case None
  with assms show ?thesis
    unfolding py_contains_obj by (simp add: declared_properties_get del: py_get_default.simps)
next
  case (Some branches)
  with assms obtain merged where m: "merge_all (JObj item) spec_data = Inr (JObj merged)"
    and d: "declared_properties merged = Some props"
    by (auto split: sum.splits json.splits)
  with Some show ?thesis
    unfolding py_contains_obj by (simp add: declared_properties_get del: py_get_default.simps)
qed

lemma schema_properties_request:
  assumes "request_properties merge_all spec_data schema = Some props"
  shows "schema_properties merge_all spec_data schema = Inr (JObj props)"
proof -
  from assms obtain item where item: "request_schema spec_data schema = Some item"
    and n: "(case map_of item ''allOf'' of
              None \<Rightarrow> declared_properties item
            | Some branches \<Rightarrow>
                (case merge_all (JObj item) spec_data of
                   Inr (JObj merged) \<Rightarrow> declared_properties merged
                 | _ \<Rightarrow> None)) = Some props"
    by (auto simp: request_properties_def split: option.splits)
  from item obtain kv where kv: "schema = JObj kv"
    by (cases schema) (simp_all add: request_schema_def)
  have d: "(if map_of kv ''$ref'' \<noteq> None
               then (case py_getitem (JObj kv) ''$ref'' of
                       Inl e \<Rightarrow> Inl e
                     | Inr r \<Rightarrow> item_by_ref spec_data r)
               else Inr (JObj kv)) = Inr (JObj item)"
  proof (cases "map_of kv ''$ref''")
    case None
    with item kv show ?thesis by (simp add: request_schema_def)
  next
    case (Some rj)
    with item kv obtain r where r: "rj = JStr r"
      by (cases rj) (simp_all add: request_schema_def)
    with item kv Some have "referenced_item spec_data r = Some (JObj item)"
      by (auto simp: request_schema_def split: option.splits json.splits)
    then have "item_by_ref spec_data (JStr r) = Inr (JObj item)"
      by (rule item_by_ref_referenced)
    with Some r show ?thesis by simp
  qed
  show ?thesis
    unfolding schema_properties_def kv py_contains_obj
    using d node_properties [where merge_all = merge_all and item = item and spec_data = spec_data
        and props = props, OF n, unfolded py_contains_obj]
    by (simp add: map_of_in_keys del: py_getitem.simps py_get_default.simps)
qed

lemma update_fresh: "k \<notin> fst ` set al \<Longrightarrow> AList.update k v al = al @ [(k, v)]"
  by (induction al) auto

lemma generate_value_enum:
  assumes "map_of kv ''$ref'' = None" and "map_of kv ''enum'' = Some (JArr (e # es))"
  shows "generate_value depth merge_all spec_data (JObj kv) = Inr e"
  using assms by (simp add: generate_value.simps not_in_keys map_of_in_keys)

lemma generate_value_type:
  assumes "map_of kv ''$ref'' = None" and "map_of kv ''enum'' = None"
    and "map_of kv ''type'' = Some (JStr t)" and "type_default t = Some d"
  shows "generate_value depth merge_all spec_data (JObj kv) = Inr d"
  using assms
  by (auto simp: generate_value.simps not_in_keys map_of_in_keys type_default_def
        defaults_getitem_def defaults_def split: if_splits)

lemma generate_value_ref:
  assumes "map_of kv ''$ref'' = Some (JStr r)" and "referenced_item spec_data r = Some sub_item"
  shows "generate_value depth merge_all spec_data (JObj kv) =
         generate_params depth merge_all spec_data sub_item"
  using assms item_by_ref_referenced [OF assms(2)]
  by (simp add: generate_value.simps not_in_keys map_of_in_keys)

lemma read_only_get:
  "py_get (JObj kv) ''readOnly'' = Inr ro \<Longrightarrow> truthy ro = read_only (JObj kv)"
  by (auto simp: py_get_def read_only_def split: option.splits)

lemma generate_loop_read_only:
  assumes "read_only (JObj kv)"
  shows "generate_loop depth merge_all spec_data ((p_key, JObj kv) # rest) acc =
         generate_loop depth merge_all spec_data rest acc"
proof -
  obtain ro where ro: "py_get (JObj kv) ''readOnly'' = Inr ro"
    by (cases "map_of kv ''readOnly''") (auto simp: py_get_def)
  with assms have "truthy ro" by (simp add: read_only_get)
  with ro show ?thesis by simp
qed

lemma generate_loop_property:
  assumes "\<not> read_only (JObj kv)"
    and "generate_value depth merge_all spec_data (JObj kv) = Inr v"
  shows "generate_loop depth merge_all spec_data ((p_key, JObj kv) # rest) acc =
         generate_loop depth merge_all spec_data rest (AList.update p_key v acc)"
proof -
  obtain ro where ro: "py_get (JObj kv) ''readOnly'' = Inr ro"
    by (cases "map_of kv ''readOnly''") (auto simp: py_get_def)
  with assms(1) have "\<not> truthy ro" by (simp add: read_only_get)
  with ro assms(2) show ?thesis by (simp)
qed

lemma generate_params_Suc:
  assumes "schema_properties merge_all spec_data schema = Inr (JObj props)"
  shows "generate_params (Suc depth) merge_all spec_data schema =
         (if props = [] then Inr (JObj [])
          else generate_loop depth merge_all spec_data props [])"
  using assms by simp

lemma example_generated:
  "example_of merge_all spec_data schema v \<Longrightarrow>
     \<exists>n. \<forall>depth \<ge> n. generate_params depth merge_all spec_data schema = Inr v"
  "examples_of merge_all spec_data props params \<Longrightarrow>
     \<exists>n. \<forall>depth \<ge> n. \<forall>acc. distinct (map fst props) \<longrightarrow>
            fst ` set acc \<inter> fst ` set props = {} \<longrightarrow>
            generate_loop depth merge_all spec_data props acc = Inr (JObj (acc @ params))"
  "value_of merge_all spec_data p_value v \<Longrightarrow>
     \<exists>n. \<forall>depth \<ge> n. generate_value depth merge_all spec_data p_value = Inr v"
proof (induction rule: example_of_examples_of_value_of.inducts)
  case (of_schema schema props params)
  from of_schema obtain n where n:
    "\<forall>depth \<ge> n. \<forall>acc. distinct (map fst props) \<longrightarrow>
            fst ` set acc \<inter> fst ` set props = {} \<longrightarrow>
            generate_loop depth merge_all spec_data props acc = Inr (JObj (acc @ params))"
    by auto
  have sp: "schema_properties merge_all spec_data schema = Inr (JObj props)"
    using of_schema by (simp add: schema_properties_request)
  have "generate_params depth merge_all spec_data schema = Inr (JObj params)"
    if "Suc n \<le> depth" for depth
  proof -
    from that obtain d where d: "depth = Suc d" "n \<le> d"
      by (cases depth) auto
    have "distinct (map fst props)" using of_schema by simp
    with n d(2)
    have loop: "generate_loop d merge_all spec_data props [] = Inr (JObj params)"
      by fastforce
    show ?thesis
    proof (cases "props = []")
      case True
      with loop have "params = []" by simp
      with True show ?thesis
        unfolding d(1) generate_params_Suc [OF sp] by simp
    next
      case False
      with loop show ?thesis
        unfolding d(1) generate_params_Suc [OF sp] by simp
    qed
  qed
  then show ?case by blast
next
  case of_nil
  show ?case by simp
next
  case (of_read_only p_value kv rest params p_key)
  from of_read_only obtain n where n:
    "\<forall>depth \<ge> n. \<forall>acc. distinct (map fst rest) \<longrightarrow>
            fst ` set acc \<inter> fst ` set rest = {} \<longrightarrow>
            generate_loop depth merge_all spec_data rest acc = Inr (JObj (acc @ params))"
    by auto
  have "generate_loop depth merge_all spec_data ((p_key, p_value) # rest) acc =
          Inr (JObj (acc @ params))"
    if "n \<le> depth" and "distinct (map fst ((p_key, p_value) # rest))"
      and "fst ` set acc \<inter> fst ` set ((p_key, p_value) # rest) = {}" for depth acc
  proof -
    from that(2) have d: "distinct (map fst rest)" by simp
    from that(3) have i: "fst ` set acc \<inter> fst ` set rest = {}" by auto
    from n that(1) d i
    have "generate_loop depth merge_all spec_data rest acc = Inr (JObj (acc @ params))"
      by simp
    then show ?thesis
      using of_read_only by (simp add: generate_loop_read_only del: generate_loop.simps)
  qed
  then show ?case by blast
next
  case (of_property p_value kv v rest params p_key)
  from of_property obtain n1 where n1:
    "\<forall>depth \<ge> n1. generate_value depth merge_all spec_data p_value = Inr v"
    by auto
  from of_property obtain n2 where n2:
    "\<forall>depth \<ge> n2. \<forall>acc. distinct (map fst rest) \<longrightarrow>
            fst ` set acc \<inter> fst ` set rest = {} \<longrightarrow>
            generate_loop depth merge_all spec_data rest acc = Inr (JObj (acc @ params))"
    by auto
  have "generate_loop depth merge_all spec_data ((p_key, p_value) # rest) acc =
          Inr (JObj (acc @ (p_key, v) # params))"
    if "max n1 n2 \<le> depth" and "distinct (map fst ((p_key, p_value) # rest))"
      and "fst ` set acc \<inter> fst ` set ((p_key, p_value) # rest) = {}" for depth acc
  proof -
    from that(1) have d1: "n1 \<le> depth" and d2: "n2 \<le> depth" by simp_all
    from that(2) have d: "distinct (map fst rest)" and k: "p_key \<notin> fst ` set rest" by auto
    from that(3) have ka: "p_key \<notin> fst ` set acc" and i: "fst ` set acc \<inter> fst ` set rest = {}"
      by auto
    have u: "AList.update p_key v acc = acc @ [(p_key, v)]"
      using ka by (rule update_fresh)
    have i': "fst ` set (acc @ [(p_key, v)]) \<inter> fst ` set rest = {}"
      using i k by auto
    from n1 d1 have gv: "generate_value depth merge_all spec_data (JObj kv) = Inr v"
      using of_property by simp
    from n2 d2 d i'
    have "generate_loop depth merge_all spec_data rest (acc @ [(p_key, v)]) =
            Inr (JObj ((acc @ [(p_key, v)]) @ params))"
      by blast
    then show ?thesis
      using of_property gv u
      by (simp add: generate_loop_property del: generate_loop.simps)
  qed
  then show ?case by blast
next
  case (of_ref kv r sub_item v)
  from of_ref obtain n where
    "\<forall>depth \<ge> n. generate_params depth merge_all spec_data sub_item = Inr v"
    by auto
  then have "\<forall>depth \<ge> n. generate_value depth merge_all spec_data (JObj kv) = Inr v"
    using of_ref by (simp add: generate_value_ref)
  then show ?case by blast
next
  case (of_enum kv e es)
  then have "generate_value depth merge_all spec_data (JObj kv) = Inr e" for depth
    by (simp add: generate_value_enum)
  then show ?case by blast
next
  case (of_type kv t d)
  then have "generate_value depth merge_all spec_data (JObj kv) = Inr d" for depth
    by (simp add: generate_value_type)
  then show ?case by blast
qed

text \<open>
  C6, as the code has it. When the properties of the dereferenced, allOf-merged
  request schema all have an example (each is read-only, or refers to a schema that
  has an example, or has a non-empty enum, or has one of the five types), example
  generation returns, at every recursion depth from some depth on, the object that
  assigns to every property that is not read-only, in order, the generated sub-object
  for a reference, else the first enum value, else the default of its type; read-only
  properties are left out.
\<close>

theorem generate_params_example:
  assumes "example_of merge_all spec_data schema v"
  shows "\<exists>n. \<forall>depth \<ge> n. generate_params depth merge_all spec_data schema = Inr v"
  using assms by (rule example_generated(1))

text \<open>
  The claim as stated fails: a property that is not read-only and has neither a
  reference, nor an enum, nor one of the five types (here the type \<open>object\<close>) makes the
  generation raise \<open>KeyError\<close>, so that no property is assigned, at any depth.
\<close>

theorem generate_params_counterexample:
  "\<forall>n. generate_params (Suc n) (\<lambda>d r. Inr d) (JObj [])
     (JObj [(''properties'', JObj [(''size'', JObj [(''type'', JStr ''integer'')]),
                                   (''meta'', JObj [(''type'', JStr ''object'')])])])
   = Inl KeyError"
  by (simp add: schema_properties_def py_get_def generate_value.simps defaults_getitem_def
        defaults_def)

theorem generate_params_example_witness:
  "(\<exists>n. \<forall>depth \<ge> n.
      generate_params depth (\<lambda>d r. Inr d) (JObj [])
        (JObj [(''type'', JStr ''object''),
               (''properties'', JObj [(''size'', JObj [(''type'', JStr ''integer'')]),
                                      (''tag'', JObj [(''type'', JStr ''string''),
                                                      (''enum'', JArr [JStr ''x'', JStr ''y''])])])])
      = Inr (JObj [(''size'', JInt 1), (''tag'', JStr ''x'')]))
   \<and> generate_params (Suc 0) (\<lambda>d r. Inr d) (JObj [])
        (JObj [(''type'', JStr ''object''),
               (''properties'', JObj [(''size'', JObj [(''type'', JStr ''integer'')]),
                                      (''tag'', JObj [(''type'', JStr ''string''),
                                                      (''enum'', JArr [JStr ''x'', JStr ''y''])])])])
      = Inr (JObj [(''size'', JInt 1), (''tag'', JStr ''x'')])
   \<and> (\<exists>n. \<forall>depth \<ge> n.
      generate_params depth
        (\<lambda>d r. Inr (JObj [(''properties'',
             JObj [(''id'', JObj [(''type'', JStr ''string''), (''readOnly'', JBool True)]),
                   (''os'', JObj [(''$ref'', JStr ''#/definitions/Os'')])])]))
        (JObj [(''definitions'', JObj [
           (''Server'', JObj [(''allOf'', JArr [JObj [(''$ref'', JStr ''#/definitions/Base'')]])]),
           (''Os'', JObj [(''properties'', JObj [(''name'', JObj [(''type'', JStr ''string'')])])])])])
        (JObj [(''$ref'', JStr ''#/definitions/Server'')])
      = Inr (JObj [(''os'', JObj [(''name'', JStr [])])]))"
proof (intro conjI)
  let ?m = "\<lambda>d r. Inr d :: json result"
  let ?size = "JObj [(''type'', JStr ''integer'')]"
  let ?tag = "JObj [(''type'', JStr ''string''), (''enum'', JArr [JStr ''x'', JStr ''y''])]"
  let ?schema = "JObj [(''type'', JStr ''object''),
                       (''properties'', JObj [(''size'', ?size), (''tag'', ?tag)])]"
  have v_size: "value_of ?m (JObj []) ?size (JInt 1)"
    by (rule of_type [where t = "''integer''"]) (simp_all add: type_default_def)
  have v_tag: "value_of ?m (JObj []) ?tag (JStr ''x'')"
    by (rule of_enum [where es = "[JStr ''y'']"]) simp_all
  have e0: "examples_of ?m (JObj []) [] []" by (rule of_nil)
  have e1: "examples_of ?m (JObj []) [(''tag'', ?tag)] [(''tag'', JStr ''x'')]"
    by (rule of_property [OF refl _ v_tag e0]) (simp add: read_only_def)
  have e2: "examples_of ?m (JObj []) [(''size'', ?size), (''tag'', ?tag)]
              [(''size'', JInt 1), (''tag'', JStr ''x'')]"
    by (rule of_property [OF refl _ v_size e1]) (simp add: read_only_def)
  have ex: "example_of ?m (JObj []) ?schema (JObj [(''size'', JInt 1), (''tag'', JStr ''x'')])"
    by (rule of_schema [OF _ _ e2])
       (simp_all add: request_properties_def request_schema_def declared_properties_def)
  show "\<exists>n. \<forall>depth \<ge> n. generate_params depth ?m (JObj []) ?schema
          = Inr (JObj [(''size'', JInt 1), (''tag'', JStr ''x'')])"
    using generate_params_example [OF ex] .
  show "generate_params (Suc 0) ?m (JObj []) ?schema
          = Inr (JObj [(''size'', JInt 1), (''tag'', JStr ''x'')])"
    by (simp add: schema_properties_def py_get_def generate_value.simps defaults_getitem_def
          defaults_def)
next
  let ?id = "JObj [(''type'', JStr ''string''), (''readOnly'', JBool True)]"
  let ?os = "JObj [(''$ref'', JStr ''#/definitions/Os'')]"
  let ?m = "\<lambda>d r. Inr (JObj [(''properties'', JObj [(''id'', ?id), (''os'', ?os)])]) :: json result"
  let ?name = "JObj [(''type'', JStr ''string'')]"
  let ?Os = "JObj [(''properties'', JObj [(''name'', ?name)])]"
  let ?spec = "JObj [(''definitions'', JObj [
           (''Server'', JObj [(''allOf'', JArr [JObj [(''$ref'', JStr ''#/definitions/Base'')]])]),
           (''Os'', ?Os)])]"
  have v_name: "value_of ?m ?spec ?name (JStr [])"
    by (rule of_type [where t = "''string''"]) (simp_all add: type_default_def)
  have n0: "examples_of ?m ?spec [] []" by (rule of_nil)
  have n1: "examples_of ?m ?spec [(''name'', ?name)] [(''name'', JStr [])]"
    by (rule of_property [OF refl _ v_name n0]) (simp add: read_only_def)
  have x_os: "example_of ?m ?spec ?Os (JObj [(''name'', JStr [])])"
    by (rule of_schema [OF _ _ n1])
       (simp_all add: request_properties_def request_schema_def declared_properties_def)
  have v_os: "value_of ?m ?spec ?os (JObj [(''name'', JStr [])])"
    by (rule of_ref [where r = "''#/definitions/Os''", OF _ _ x_os])
       (simp_all add: referenced_item_def strip_slash_def)
  have s1: "examples_of ?m ?spec [(''os'', ?os)] [(''os'', JObj [(''name'', JStr [])])]"
    by (rule of_property [OF refl _ v_os n0]) (simp add: read_only_def)
  have s2: "examples_of ?m ?spec [(''id'', ?id), (''os'', ?os)] [(''os'', JObj [(''name'', JStr [])])]"
    by (rule of_read_only [OF refl _ s1]) (simp add: read_only_def)
  have ex: "example_of ?m ?spec (JObj [(''$ref'', JStr ''#/definitions/Server'')])
              (JObj [(''os'', JObj [(''name'', JStr [])])])"
    by (rule of_schema [OF _ _ s2])
       (simp_all add: request_properties_def request_schema_def declared_properties_def
          referenced_item_def strip_slash_def)
  show "\<exists>n. \<forall>depth \<ge> n. generate_params depth ?m ?spec (JObj [(''$ref'', JStr ''#/definitions/Server'')])
          = Inr (JObj [(''os'', JObj [(''name'', JStr [])])])"
    using generate_params_example [OF ex] .
qed

section \<open>Iterable responses\<close>

definition success_codes :: "(string \<times> json) list" where
  "success_codes = [(''get'', JStr ''200''), (''post'', JStr ''201''),
                    (''delete'', JStr ''204''), (''patch'', JStr ''200'')]"

text \<open>\<open>x[k1][k2]...\<close>: the first subscript that fails raises.\<close>

fun py_path :: "json \<Rightarrow> string list \<Rightarrow> json result" where
  "py_path x [] = Inr x"
| "py_path x (k # ks) = (case py_getitem x k of Inl e \<Rightarrow> Inl e | Inr y \<Rightarrow> py_path y ks)"

text \<open>
  The last lines of both versions: \<open>object_properties = schema['properties']\<close>,
  \<open>data_structure = object_properties['data']\<close> and the comparison of its type.
\<close>

definition data_type_is_array :: "json \<Rightarrow> bool result" where
  "data_type_is_array object_descr =
     (case py_path object_descr [''properties'', ''data''] of
        Inl e \<Rightarrow> Inl e
      | Inr data_structure \<Rightarrow>
          (case py_get data_structure ''type'' of
             Inl e \<Rightarrow> Inl e
           | Inr t \<Rightarrow> Inr (t = JStr ''array'')))"

text \<open>
  \<open>_OpenAPIv2Spec.get_iterable_object\<close>: lines 922 to 927 for the schema of the
  response, lines 920 and 921 for the response, and the whole method.
\<close>

definition schema_iterable_v2 :: "json \<Rightarrow> json \<Rightarrow> bool result" where
  "schema_iterable_v2 raw_spec schema =
     (case py_contains ''$ref'' schema of
        Inl e \<Rightarrow> Inl e
      | Inr False \<Rightarrow> Inr False
      | Inr True \<Rightarrow>
          (case py_getitem schema ''$ref'' of
             Inl e \<Rightarrow> Inl e
           | Inr (JStr r) \<Rightarrow>
               (case py_path raw_spec [''definitions'', last_segment r] of
                  Inl e \<Rightarrow> Inl e
                | Inr object_descr \<Rightarrow> data_type_is_array object_descr)
           | Inr _ \<Rightarrow> Inl AttributeError))"

definition response_iterable_v2 :: "json \<Rightarrow> json \<Rightarrow> bool result" where
  "response_iterable_v2 raw_spec response_200 =
     (case py_contains ''schema'' response_200 of
        Inl e \<Rightarrow> Inl e
      | Inr False \<Rightarrow> Inr False
      | Inr True \<Rightarrow>
          (case py_getitem response_200 ''schema'' of
             Inl e \<Rightarrow> Inl e
           | Inr schema \<Rightarrow> schema_iterable_v2 raw_spec schema))"

definition success_code :: "string \<Rightarrow> string result" where
  "success_code http_method =
     (case map_of success_codes http_method of
        Some (JStr response_code) \<Rightarrow> Inr response_code
      | _ \<Rightarrow> Inl KeyError)"

definition get_iterable_object_v2 :: "json \<Rightarrow> string \<Rightarrow> string \<Rightarrow> bool result" where
  "get_iterable_object_v2 raw_spec route http_method =
     (case py_path raw_spec [''paths'', route, http_method, ''responses''] of
        Inl e \<Rightarrow> Inl e
      | Inr responses \<Rightarrow>
          (case success_code http_method of
             Inl e \<Rightarrow> Inl e
           | Inr response_code \<Rightarrow>
               (case py_contains response_code responses of
                  Inl e \<Rightarrow> Inl e
                | Inr False \<Rightarrow> Inr False
                | Inr True \<Rightarrow>
                    (case py_get responses response_code of
                       Inl e \<Rightarrow> Inl e
                     | Inr response_200 \<Rightarrow> response_iterable_v2 raw_spec response_200))))"

text \<open>
  \<open>_OpenAPIv3Spec.get_iterable_object\<close>. The responses are those of the \<open>get\<close>
  operation of the route, whatever \<open>http_method\<close> is; \<open>http_method\<close> selects the
  status code. \<open>deref\<close> is the step \<open>if '$ref' in x: x = self.lookup(x['$ref'])\<close>.
\<close>

definition deref :: "json \<Rightarrow> json \<Rightarrow> json result" where
  "deref raw_spec x =
     (case py_contains ''$ref'' x of
        Inl e \<Rightarrow> Inl e
      | Inr False \<Rightarrow> Inr x
      | Inr True \<Rightarrow>
          (case py_getitem x ''$ref'' of
             Inl e \<Rightarrow> Inl e
           | Inr r \<Rightarrow> lookup r raw_spec))"

definition response_iterable_v3 :: "json \<Rightarrow> json \<Rightarrow> bool result" where
  "response_iterable_v3 raw_spec response_200 =
     (case py_path response_200 [''content'', ''application/json''] of
        Inl e \<Rightarrow> Inl e
      | Inr content \<Rightarrow>
          (case py_contains ''schema'' content of
             Inl e \<Rightarrow> Inl e
           | Inr False \<Rightarrow> Inr False
           | Inr True \<Rightarrow>
               (case py_getitem content ''schema'' of
                  Inl e \<Rightarrow> Inl e
                | Inr schema_ref \<Rightarrow>
                    (case deref raw_spec schema_ref of
                       Inl e \<Rightarrow> Inl e
                     | Inr schema \<Rightarrow> data_type_is_array schema))))"

definition get_iterable_object_v3 :: "json \<Rightarrow> string \<Rightarrow> string \<Rightarrow> bool result" where
  "get_iterable_object_v3 raw_spec route http_method =
     (case py_path raw_spec [''paths'', route, ''get'', ''responses''] of
        Inl e \<Rightarrow> Inl e
      | Inr responses \<Rightarrow>
          (case success_code http_method of
             Inl e \<Rightarrow> Inl e
           | Inr response_code \<Rightarrow>
               (case py_contains response_code responses of
                  Inl e \<Rightarrow> Inl e
                | Inr False \<Rightarrow> Inr False
                | Inr True \<Rightarrow>
                    (case py_get responses response_code of
                       Inl e \<Rightarrow> Inl e
                     | Inr response_ref \<Rightarrow>
                         (case deref raw_spec response_ref of
                            Inl e \<Rightarrow> Inl e
                          | Inr response_200 \<Rightarrow> response_iterable_v3 raw_spec response_200)))))"

text \<open>
  The specification's side. The success response of a route and method is
  \<open>paths[route][method].responses[code]\<close>, with the code of the method. Its body
  schema is the \<open>schema\<close> entry of the response in version 2 and of the
  \<open>application/json\<close> content of the response in version 3, where the response and the
  schema may be references. The \<open>data\<close> property of a schema is declared with type
  array when \<open>properties.data.type\<close> is \<open>array\<close>.
\<close>

definition resolved :: "json \<Rightarrow> json \<Rightarrow> json option" where
  "resolved raw_spec x =
     (case x of
        JObj kvs \<Rightarrow>
          (case map_of kvs ''$ref'' of
             None \<Rightarrow> Some x
           | Some r \<Rightarrow> (case lookup r raw_spec of Inl e \<Rightarrow> None | Inr y \<Rightarrow> Some y))
      | _ \<Rightarrow> None)"

definition success_response :: "json \<Rightarrow> string \<Rightarrow> string \<Rightarrow> json option" where
  "success_response raw_spec route http_method =
     (case success_code http_method of
        Inr code \<Rightarrow> walk raw_spec [''paths'', route, http_method, ''responses'', code]
      | Inl e \<Rightarrow> None)"

definition body_schema_v2 :: "json \<Rightarrow> string \<Rightarrow> string \<Rightarrow> json option" where
  "body_schema_v2 raw_spec route http_method =
     (case success_response raw_spec route http_method of
        None \<Rightarrow> None
      | Some response \<Rightarrow>
          (case walk response [''schema''] of
             None \<Rightarrow> None
           | Some schema \<Rightarrow> resolved raw_spec schema))"

definition body_schema_v3 :: "json \<Rightarrow> string \<Rightarrow> string \<Rightarrow> json option" where
  "body_schema_v3 raw_spec route http_method =
     (case success_response raw_spec route http_method of
        None \<Rightarrow> None
      | Some response_ref \<Rightarrow>
          (case resolved raw_spec response_ref of
             None \<Rightarrow> None
           | Some response \<Rightarrow>
               (case walk response [''content'', ''application/json'', ''schema''] of
                  None \<Rightarrow> None
                | Some schema \<Rightarrow> resolved raw_spec schema)))"

definition data_is_array :: "json \<Rightarrow> bool" where
  "data_is_array schema =
     (case walk schema [''properties'', ''data''] of
        Some (JObj d) \<Rightarrow> map_of d ''type'' = Some (JStr ''array'')
      | _ \<Rightarrow> False)"

definition is_iterable_v2 :: "json \<Rightarrow> string \<Rightarrow> string \<Rightarrow> bool" where
  "is_iterable_v2 raw_spec route http_method =
     (case body_schema_v2 raw_spec route http_method of
        None \<Rightarrow> False
      | Some schema \<Rightarrow> data_is_array schema)"

definition is_iterable_v3 :: "json \<Rightarrow> string \<Rightarrow> string \<Rightarrow> bool" where
  "is_iterable_v3 raw_spec route http_method =
     (case body_schema_v3 raw_spec route http_method of
        None \<Rightarrow> False
      | Some schema \<Rightarrow> data_is_array schema)"

text \<open>
  What version 2 reads instead: only a schema that is a reference, and the definition
  named by the last segment of the reference.
\<close>

definition referenced_definition_v2 :: "json \<Rightarrow> string \<Rightarrow> string \<Rightarrow> json option" where
  "referenced_definition_v2 raw_spec route http_method =
     (case success_response raw_spec route http_method of
        None \<Rightarrow> None
      | Some response \<Rightarrow>
          (case walk response [''schema'', ''$ref''] of
             Some (JStr r) \<Rightarrow> walk raw_spec [''definitions'', last_segment r]
           | _ \<Rightarrow> None))"

lemma py_path_walk: "(py_path x ks = Inr y) = (walk x ks = Some y)"
proof (induction ks arbitrary: x)
  case Nil
  then show ?case by simp
next
  case (Cons k ks)
  then show ?case by (cases x) (auto split: option.splits)
qed

lemma walk_append: "walk x (ks @ ks') = (case walk x ks of None \<Rightarrow> None | Some y \<Rightarrow> walk y ks')"
proof (induction ks arbitrary: x)
  case Nil
  then show ?case by simp
next
  case (Cons k ks)
  then show ?case by (cases x) (auto split: option.splits)
qed

lemma py_getitem_Inr: "(py_getitem x k = Inr y) = (\<exists>kvs. x = JObj kvs \<and> map_of kvs k = Some y)"
  by (cases x) (auto split: option.splits)

lemma py_get_str: "(py_get x k = Inr (JStr s)) = (\<exists>kvs. x = JObj kvs \<and> map_of kvs k = Some (JStr s))"
  by (cases x) (auto simp: py_get_def split: option.splits)

lemma data_type_is_array_True: "(data_type_is_array d = Inr True) = data_is_array d"
proof -
  have "(data_type_is_array d = Inr True) =
        (\<exists>ds. py_path d [''properties'', ''data''] = Inr ds \<and> py_get ds ''type'' = Inr (JStr ''array''))"
    unfolding data_type_is_array_def by (auto split: sum.splits)
  also have "\<dots> = (\<exists>ds. walk d [''properties'', ''data''] = Some ds \<and>
                        (\<exists>kvs. ds = JObj kvs \<and> map_of kvs ''type'' = Some (JStr ''array'')))"
    unfolding py_path_walk py_get_str ..
  also have "\<dots> = data_is_array d"
    unfolding data_is_array_def by (auto split: option.splits json.splits)
  finally show ?thesis .
qed

lemma py_path_None: "walk x ks = None \<Longrightarrow> \<exists>e. py_path x ks = Inl e"
proof (cases "py_path x ks")
  case (Inl e)
  then show ?thesis by blast
next
  case (Inr y)
  assume "walk x ks = None"
  with Inr show ?thesis by (simp add: py_path_walk)
qed

lemma schema_iterable_v2_obj:
  "schema_iterable_v2 raw_spec (JObj sk) =
     (case map_of sk ''$ref'' of
        None \<Rightarrow> Inr False
      | Some (JStr r) \<Rightarrow>
          (case py_path raw_spec [''definitions'', last_segment r] of
             Inl e \<Rightarrow> Inl e
           | Inr object_descr \<Rightarrow> data_type_is_array object_descr)
      | Some _ \<Rightarrow> Inl AttributeError)"
  unfolding schema_iterable_v2_def py_contains_obj
  by (cases "map_of sk ''$ref''") simp_all

lemma schema_iterable_v2_not_obj:
  "\<forall>sk. schema \<noteq> JObj sk \<Longrightarrow> schema_iterable_v2 raw_spec schema \<noteq> Inr True"
  unfolding schema_iterable_v2_def
  by (cases schema) (simp_all split: bool.splits)

lemma schema_iterable_v2_True:
  "(schema_iterable_v2 raw_spec schema = Inr True) =
   (\<exists>sk r d. schema = JObj sk \<and> map_of sk ''$ref'' = Some (JStr r) \<and>
       walk raw_spec [''definitions'', last_segment r] = Some d \<and> data_is_array d)"
  (is "?L = ?R")
proof
  assume L: ?L
  then obtain sk where sk: "schema = JObj sk"
    using schema_iterable_v2_not_obj by blast
  from L sk obtain r where r: "map_of sk ''$ref'' = Some (JStr r)"
    unfolding sk schema_iterable_v2_obj
    by (cases "map_of sk ''$ref''") (auto split: json.splits)
  from L sk r obtain d where d: "py_path raw_spec [''definitions'', last_segment r] = Inr d"
    and a: "data_type_is_array d = Inr True"
    unfolding sk schema_iterable_v2_obj
    by (cases "py_path raw_spec [''definitions'', last_segment r]") auto
  from d have "walk raw_spec [''definitions'', last_segment r] = Some d"
    by (simp only: py_path_walk)
  moreover from a have "data_is_array d" by (simp only: data_type_is_array_True)
  ultimately show ?R using sk r by blast
next
  assume ?R
  then obtain sk r d where sk: "schema = JObj sk" and r: "map_of sk ''$ref'' = Some (JStr r)"
    and w: "walk raw_spec [''definitions'', last_segment r] = Some d" and a: "data_is_array d"
    by blast
  from w have "py_path raw_spec [''definitions'', last_segment r] = Inr d"
    by (simp only: py_path_walk)
  moreover from a have "data_type_is_array d = Inr True" by (simp only: data_type_is_array_True)
  ultimately show ?L
    unfolding sk schema_iterable_v2_obj using r by simp
qed

lemma response_iterable_v2_obj:
  "response_iterable_v2 raw_spec (JObj kvs) =
     (case map_of kvs ''schema'' of
        None \<Rightarrow> Inr False
      | Some schema \<Rightarrow> schema_iterable_v2 raw_spec schema)"
  unfolding response_iterable_v2_def py_contains_obj
  by (cases "map_of kvs ''schema''") simp_all

lemma response_iterable_v2_not_obj:
  "\<forall>kvs. response \<noteq> JObj kvs \<Longrightarrow> response_iterable_v2 raw_spec response \<noteq> Inr True"
  unfolding response_iterable_v2_def
  by (cases response) (simp_all split: bool.splits)

lemma response_iterable_v2_True:
  "(response_iterable_v2 raw_spec response = Inr True) =
   (\<exists>kvs schema. response = JObj kvs \<and> map_of kvs ''schema'' = Some schema \<and>
       schema_iterable_v2 raw_spec schema = Inr True)"
  (is "?L = ?R")
proof
  assume L: ?L
  then obtain kvs where kvs: "response = JObj kvs"
    using response_iterable_v2_not_obj by blast
  from L show ?R
    unfolding kvs response_iterable_v2_obj
    by (cases "map_of kvs ''schema''") auto
next
  assume ?R
  then show ?L
    by (auto simp: response_iterable_v2_obj)
qed

lemma walk_Cons_Some:
  "(walk x (k # ks) = Some y) = (\<exists>kvs v. x = JObj kvs \<and> map_of kvs k = Some v \<and> walk v ks = Some y)"
  by (cases x) (auto split: option.splits)

lemma walk_snoc_Some:
  "(walk x (ks @ [k]) = Some y) = (\<exists>z. walk x ks = Some z \<and> walk z [k] = Some y)"
  by (auto simp: walk_append split: option.splits)

lemma select_response_True:
  "((case py_contains code responses of
       Inl e \<Rightarrow> Inl e
     | Inr False \<Rightarrow> Inr False
     | Inr True \<Rightarrow>
         (case py_get responses code of
            Inl e \<Rightarrow> Inl e
          | Inr response \<Rightarrow> f response)) = Inr True) =
   (\<exists>response. walk responses [code] = Some response \<and> f response = Inr True)"
proof (cases responses)
  case (JObj rs)
  then show ?thesis
    unfolding JObj py_contains_obj
    by (cases "map_of rs code") (simp_all add: py_get_def)
next
  case JNull
  then show ?thesis by simp
next
  case (JBool b)
  then show ?thesis by simp
next
  case (JInt i)
  then show ?thesis by simp
next
  case (JStr x)
  then show ?thesis by (simp add: py_get_def split: bool.splits)
next
  case (JArr xs)
  then show ?thesis by (simp add: py_get_def split: bool.splits)
qed

lemma get_iterable_object_v2_True:
  "(get_iterable_object_v2 raw_spec route http_method = Inr True) =
   (\<exists>response. success_response raw_spec route http_method = Some response \<and>
       response_iterable_v2 raw_spec response = Inr True)"
proof (cases "success_code http_method")
  case (Inl e)
  then show ?thesis
    unfolding get_iterable_object_v2_def success_response_def
    by (simp split: sum.splits)
next
  case (Inr code)
  have path: "[''paths'', route, http_method, ''responses'', code] =
              [''paths'', route, http_method, ''responses''] @ [code]" by simp
  show ?thesis
  proof (cases "py_path raw_spec [''paths'', route, http_method, ''responses'']")
    case (Inl e)
    then have "walk raw_spec [''paths'', route, http_method, ''responses''] = None"
      using py_path_walk [of raw_spec "[''paths'', route, http_method, ''responses'']"]
      by (cases "walk raw_spec [''paths'', route, http_method, ''responses'']") auto
    then have "walk raw_spec [''paths'', route, http_method, ''responses'', code] = None"
      unfolding path walk_append by simp
    with Inl Inr show ?thesis
      unfolding get_iterable_object_v2_def success_response_def by simp
  next
    case responses: (Inr responses)
    then have w: "walk raw_spec [''paths'', route, http_method, ''responses''] = Some responses"
      by (simp only: py_path_walk)
    have "walk raw_spec [''paths'', route, http_method, ''responses'', code] = walk responses [code]"
      unfolding path walk_append w by simp
    then show ?thesis
      unfolding get_iterable_object_v2_def success_response_def responses Inr
      by (simp only: sum.case select_response_True)
  qed
qed

lemma referenced_definition_v2_alt:
  "(case referenced_definition_v2 raw_spec route http_method of
      None \<Rightarrow> False
    | Some d \<Rightarrow> data_is_array d) =
   (\<exists>response. success_response raw_spec route http_method = Some response \<and>
       response_iterable_v2 raw_spec response = Inr True)"
proof (cases "success_response raw_spec route http_method")
  case None
  then show ?thesis by (simp add: referenced_definition_v2_def)
next
  case (Some response)
  have "(case (case walk response [''schema'', ''$ref''] of
                 Some (JStr r) \<Rightarrow> walk raw_spec [''definitions'', last_segment r]
               | _ \<Rightarrow> None) of
           None \<Rightarrow> False | Some d \<Rightarrow> data_is_array d) =
        (\<exists>r d. walk response [''schema'', ''$ref''] = Some (JStr r) \<and>
            walk raw_spec [''definitions'', last_segment r] = Some d \<and> data_is_array d)"
    by (auto split: option.splits json.splits)
  also have "\<dots> = (response_iterable_v2 raw_spec response = Inr True)"
    unfolding response_iterable_v2_True schema_iterable_v2_True walk_Cons_Some
    by auto
  finally show ?thesis
    using Some by (simp add: referenced_definition_v2_def)
qed

lemma deref_obj:
  "deref raw_spec (JObj kvs) =
     (case map_of kvs ''$ref'' of None \<Rightarrow> Inr (JObj kvs) | Some r \<Rightarrow> lookup r raw_spec)"
  unfolding deref_def py_contains_obj
  by (cases "map_of kvs ''$ref''") simp_all

lemma deref_not_obj:
  "\<forall>kvs. x \<noteq> JObj kvs \<Longrightarrow> deref raw_spec x = Inr y \<Longrightarrow> y = x"
  unfolding deref_def
  by (cases x) (auto split: bool.splits)

lemma deref_then_True:
  assumes "\<And>y. \<forall>kvs. y \<noteq> JObj kvs \<Longrightarrow> g y \<noteq> Inr True"
  shows "((case deref raw_spec x of Inl e \<Rightarrow> Inl e | Inr y \<Rightarrow> g y) = Inr True) =
         (\<exists>y. resolved raw_spec x = Some y \<and> g y = Inr True)"
proof (cases "\<exists>kvs. x = JObj kvs")
  case True
  then obtain kvs where x: "x = JObj kvs" ..
  show ?thesis
    unfolding x deref_obj resolved_def
    by (cases "map_of kvs ''$ref''") (auto split: sum.splits)
next
  case False
  then have nobj: "\<forall>kvs. x \<noteq> JObj kvs" by simp
  have r: "resolved raw_spec x = None"
    using nobj unfolding resolved_def by (cases x) simp_all
  have "(case deref raw_spec x of Inl e \<Rightarrow> Inl e | Inr y \<Rightarrow> g y) \<noteq> Inr True"
  proof (cases "deref raw_spec x")
    case (Inl e)
    then show ?thesis by simp
  next
    case (Inr y)
    with nobj have "y = x" by (rule deref_not_obj)
    with Inr assms [OF nobj] show ?thesis by simp
  qed
  with r show ?thesis by simp
qed

lemma data_type_is_array_not_obj:
  "\<forall>kvs. y \<noteq> JObj kvs \<Longrightarrow> data_type_is_array y \<noteq> Inr True"
  unfolding data_type_is_array_def by (cases y) simp_all

lemma response_iterable_v3_not_obj:
  "\<forall>kvs. y \<noteq> JObj kvs \<Longrightarrow> response_iterable_v3 raw_spec y \<noteq> Inr True"
  unfolding response_iterable_v3_def by (cases y) simp_all

lemma select_schema_True:
  "((case py_contains ''schema'' content of
       Inl e \<Rightarrow> Inl e
     | Inr False \<Rightarrow> Inr False
     | Inr True \<Rightarrow>
         (case py_getitem content ''schema'' of
            Inl e \<Rightarrow> Inl e
          | Inr schema_ref \<Rightarrow> f schema_ref)) = Inr True) =
   (\<exists>schema_ref. walk content [''schema''] = Some schema_ref \<and> f schema_ref = Inr True)"
proof (cases content)
  case (JObj rs)
  then show ?thesis
    unfolding JObj py_contains_obj
    by (cases "map_of rs ''schema''") simp_all
next
  case JNull
  then show ?thesis by simp
next
  case (JBool b)
  then show ?thesis by simp
next
  case (JInt i)
  then show ?thesis by simp
next
  case (JStr x)
  then show ?thesis by (simp split: bool.splits)
next
  case (JArr xs)
  then show ?thesis by (simp split: bool.splits)
qed

lemma response_iterable_v3_True:
  "(response_iterable_v3 raw_spec response = Inr True) =
   (\<exists>schema_ref schema. walk response [''content'', ''application/json'', ''schema''] = Some schema_ref \<and>
       resolved raw_spec schema_ref = Some schema \<and> data_is_array schema)"
proof (cases "py_path response [''content'', ''application/json'']")
  case (Inl e)
  then have "walk response [''content'', ''application/json''] = None"
    using py_path_walk [of response "[''content'', ''application/json'']"]
    by (cases "walk response [''content'', ''application/json'']") auto
  then have "walk response ([''content'', ''application/json''] @ [''schema'']) = None"
    unfolding walk_append by simp
  with Inl show ?thesis
    unfolding response_iterable_v3_def by simp
next
  case (Inr content)
  then have w: "walk response [''content'', ''application/json''] = Some content"
    by (simp only: py_path_walk)
  have "walk response ([''content'', ''application/json''] @ [''schema'']) = walk content [''schema'']"
    unfolding walk_append w by simp
  then have w3: "walk response [''content'', ''application/json'', ''schema''] = walk content [''schema'']"
    by simp
  have d: "((case deref raw_spec sr of Inl e \<Rightarrow> Inl e | Inr y \<Rightarrow> data_type_is_array y) = Inr True) =
         (\<exists>y. resolved raw_spec sr = Some y \<and> data_is_array y)" for sr
  proof -
    have "((case deref raw_spec sr of Inl e \<Rightarrow> Inl e | Inr y \<Rightarrow> data_type_is_array y) = Inr True) =
         (\<exists>y. resolved raw_spec sr = Some y \<and> data_type_is_array y = Inr True)"
      by (rule deref_then_True) (rule data_type_is_array_not_obj)
    then show ?thesis by (simp only: data_type_is_array_True)
  qed
  show ?thesis
    unfolding response_iterable_v3_def Inr w3
    by (simp only: sum.case select_schema_True d ex_simps)
qed

lemma get_iterable_object_v3_True:
  "(get_iterable_object_v3 raw_spec route http_method = Inr True) =
   (\<exists>code response_ref response.
       success_code http_method = Inr code \<and>
       walk raw_spec [''paths'', route, ''get'', ''responses'', code] = Some response_ref \<and>
       resolved raw_spec response_ref = Some response \<and>
       response_iterable_v3 raw_spec response = Inr True)"
proof (cases "success_code http_method")
  case (Inl e)
  then show ?thesis
    unfolding get_iterable_object_v3_def by (simp split: sum.splits)
next
  case (Inr code)
  have path: "[''paths'', route, ''get'', ''responses'', code] =
              [''paths'', route, ''get'', ''responses''] @ [code]" by simp
  show ?thesis
  proof (cases "py_path raw_spec [''paths'', route, ''get'', ''responses'']")
    case (Inl e)
    then have "walk raw_spec [''paths'', route, ''get'', ''responses''] = None"
      using py_path_walk [of raw_spec "[''paths'', route, ''get'', ''responses'']"]
      by (cases "walk raw_spec [''paths'', route, ''get'', ''responses'']") auto
    then have "walk raw_spec [''paths'', route, ''get'', ''responses'', code] = None"
      unfolding path walk_append by simp
    with Inl Inr show ?thesis
      unfolding get_iterable_object_v3_def by simp
  next
    case responses: (Inr responses)
    then have w: "walk raw_spec [''paths'', route, ''get'', ''responses''] = Some responses"
      by (simp only: py_path_walk)
    have w5: "walk raw_spec [''paths'', route, ''get'', ''responses'', code] = walk responses [code]"
      unfolding path walk_append w by simp
    have d: "((case deref raw_spec rr of Inl e \<Rightarrow> Inl e
                | Inr y \<Rightarrow> response_iterable_v3 raw_spec y) = Inr True) =
         (\<exists>y. resolved raw_spec rr = Some y \<and> response_iterable_v3 raw_spec y = Inr True)" for rr
      by (rule deref_then_True) (rule response_iterable_v3_not_obj)
    show ?thesis
      unfolding get_iterable_object_v3_def responses Inr w5
      by (simp only: sum.case select_response_True d sum.inject simp_thms w5 ex_simps)
  qed
qed

lemma success_code_get: "success_code ''get'' = Inr ''200''"
  by (simp add: success_code_def success_codes_def)

lemma is_iterable_v3_alt:
  "is_iterable_v3 raw_spec route http_method =
   (\<exists>response_ref response.
       success_response raw_spec route http_method = Some response_ref \<and>
       resolved raw_spec response_ref = Some response \<and>
       response_iterable_v3 raw_spec response = Inr True)"
proof (cases "success_response raw_spec route http_method")
  case None
  then show ?thesis by (simp add: is_iterable_v3_def body_schema_v3_def)
next
  case (Some response_ref)
  note rr = Some
  show ?thesis
  proof (cases "resolved raw_spec response_ref")
    case None
    with rr show ?thesis by (simp add: is_iterable_v3_def body_schema_v3_def)
  next
    case (Some response)
    note resp = Some
    show ?thesis
    proof (cases "walk response [''content'', ''application/json'', ''schema'']")
      case None
      with rr resp show ?thesis
        unfolding is_iterable_v3_def body_schema_v3_def response_iterable_v3_True by simp
    next
      case (Some schema_ref)
      with rr resp show ?thesis
        unfolding is_iterable_v3_def body_schema_v3_def response_iterable_v3_True
        by (cases "resolved raw_spec schema_ref") simp_all
    qed
  qed
qed

text \<open>
  C3, as the code has it. Version 2 returns true exactly when the success response of
  the route and method has a schema that is a reference, and the definition named by
  the last segment of the reference declares its \<open>data\<close> property with type array.
  Version 3, asked about GET, returns true exactly when the body schema of the
  success response declares its \<open>data\<close> property with type array.
\<close>

theorem get_iterable_object_iff:
  "(get_iterable_object_v2 raw_spec route http_method = Inr True) =
     (case referenced_definition_v2 raw_spec route http_method of
        None \<Rightarrow> False
      | Some d \<Rightarrow> data_is_array d)
   \<and> (get_iterable_object_v3 raw_spec route ''get'' = Inr True) =
       is_iterable_v3 raw_spec route ''get''"
proof
  show "(get_iterable_object_v2 raw_spec route http_method = Inr True) =
     (case referenced_definition_v2 raw_spec route http_method of
        None \<Rightarrow> False
      | Some d \<Rightarrow> data_is_array d)"
    by (simp only: get_iterable_object_v2_True referenced_definition_v2_alt)
next
  have "(get_iterable_object_v3 raw_spec route ''get'' = Inr True) =
        (\<exists>response_ref response.
           walk raw_spec [''paths'', route, ''get'', ''responses'', ''200''] = Some response_ref \<and>
           resolved raw_spec response_ref = Some response \<and>
           response_iterable_v3 raw_spec response = Inr True)"
    unfolding get_iterable_object_v3_True success_code_get by simp
  also have "\<dots> = is_iterable_v3 raw_spec route ''get''"
    unfolding is_iterable_v3_alt success_response_def success_code_get by simp
  finally show "(get_iterable_object_v3 raw_spec route ''get'' = Inr True) =
       is_iterable_v3 raw_spec route ''get''" .
qed

text \<open>
  The claim as stated fails in both versions. Version 2 does not read a schema that
  is written in place: the response below declares \<open>data\<close> as an array and the method
  returns false. Version 3 reads the responses of GET for every method: asked about
  PATCH, whose response declares \<open>data\<close> as an object, it answers for GET.
\<close>

theorem get_iterable_object_counterexample:
  "get_iterable_object_v2
     (JObj [(''paths'', JObj [(''/images/'', JObj [(''get'', JObj [(''responses'',
        JObj [(''200'', JObj [(''schema'', JObj [(''properties'',
           JObj [(''data'', JObj [(''type'', JStr ''array'')])])])])])])])])])
     ''/images/'' ''get'' = Inr False
   \<and> is_iterable_v2
     (JObj [(''paths'', JObj [(''/images/'', JObj [(''get'', JObj [(''responses'',
        JObj [(''200'', JObj [(''schema'', JObj [(''properties'',
           JObj [(''data'', JObj [(''type'', JStr ''array'')])])])])])])])])])
     ''/images/'' ''get''
   \<and> get_iterable_object_v3
     (JObj [(''paths'', JObj [(''/images/'', JObj [
        (''get'', JObj [(''responses'', JObj [(''200'', JObj [(''content'',
           JObj [(''application/json'', JObj [(''schema'', JObj [(''properties'',
             JObj [(''data'', JObj [(''type'', JStr ''array'')])])])])])])])]),
        (''patch'', JObj [(''responses'', JObj [(''200'', JObj [(''content'',
           JObj [(''application/json'', JObj [(''schema'', JObj [(''properties'',
             JObj [(''data'', JObj [(''type'', JStr ''object'')])])])])])])])])])])])
     ''/images/'' ''patch'' = Inr True
   \<and> \<not> is_iterable_v3
     (JObj [(''paths'', JObj [(''/images/'', JObj [
        (''get'', JObj [(''responses'', JObj [(''200'', JObj [(''content'',
           JObj [(''application/json'', JObj [(''schema'', JObj [(''properties'',
             JObj [(''data'', JObj [(''type'', JStr ''array'')])])])])])])])]),
        (''patch'', JObj [(''responses'', JObj [(''200'', JObj [(''content'',
           JObj [(''application/json'', JObj [(''schema'', JObj [(''properties'',
             JObj [(''data'', JObj [(''type'', JStr ''object'')])])])])])])])])])])])
     ''/images/'' ''patch''"
  by (simp add: get_iterable_object_v2_def get_iterable_object_v3_def success_code_def
        success_codes_def response_iterable_v2_def response_iterable_v3_def schema_iterable_v2_def
        py_get_def deref_def data_type_is_array_def is_iterable_v2_def is_iterable_v3_def
        body_schema_v2_def body_schema_v3_def success_response_def resolved_def data_is_array_def)

theorem get_iterable_object_iff_witness:
  "get_iterable_object_v2
     (JObj [(''paths'', JObj [(''/images/'', JObj [(''get'', JObj [(''responses'',
        JObj [(''200'', JObj [(''schema'', JObj [(''$ref'', JStr ''#/definitions/ImageListResponse'')])])])])])]),
            (''definitions'', JObj [(''ImageListResponse'', JObj [(''properties'',
               JObj [(''data'', JObj [(''type'', JStr ''array'')])])])])])
     ''/images/'' ''get'' = Inr True
   \<and> get_iterable_object_v3
     (JObj [(''paths'', JObj [(''/images/'', JObj [(''get'', JObj [(''responses'',
        JObj [(''200'', JObj [(''$ref'', JStr ''#/components/responses/ImageList'')])])])])]),
            (''components'', JObj [
               (''responses'', JObj [(''ImageList'', JObj [(''content'',
                  JObj [(''application/json'', JObj [(''schema'',
                     JObj [(''$ref'', JStr ''#/components/schemas/ImageListResponse'')])])])])]),
               (''schemas'', JObj [(''ImageListResponse'', JObj [(''properties'',
                  JObj [(''data'', JObj [(''type'', JStr ''array'')])])])])])])
     ''/images/'' ''get'' = Inr True"
  using get_iterable_object_iff
    [of "JObj [(''paths'', JObj [(''/images/'', JObj [(''get'', JObj [(''responses'',
        JObj [(''200'', JObj [(''schema'', JObj [(''$ref'', JStr ''#/definitions/ImageListResponse'')])])])])])]),
            (''definitions'', JObj [(''ImageListResponse'', JObj [(''properties'',
               JObj [(''data'', JObj [(''type'', JStr ''array'')])])])])]"
        "''/images/''" "''get''"]
    get_iterable_object_iff
    [of "JObj [(''paths'', JObj [(''/images/'', JObj [(''get'', JObj [(''responses'',
        JObj [(''200'', JObj [(''$ref'', JStr ''#/components/responses/ImageList'')])])])])]),
            (''components'', JObj [
               (''responses'', JObj [(''ImageList'', JObj [(''content'',
                  JObj [(''application/json'', JObj [(''schema'',
                     JObj [(''$ref'', JStr ''#/components/schemas/ImageListResponse'')])])])])]),
               (''schemas'', JObj [(''ImageListResponse'', JObj [(''properties'',
                  JObj [(''data'', JObj [(''type'', JStr ''array'')])])])])])]"
        "''/images/''" "''get''"]
  by (simp add: referenced_definition_v2_def success_response_def success_code_def success_codes_def
        last_segment_def data_is_array_def is_iterable_v3_def body_schema_v3_def resolved_def
        lookup_def)

section \<open>Concrete types of a discriminated schema\<close>

text \<open>
  \<open>list_concrete_types_recursive\<close> follows the \<open>x-concreteTypes\<close> of the
  specification, which may refer to each other in a cycle: \<open>depth\<close> bounds the nesting
  of the calls, and \<open>RecursionError\<close> is raised when it is used up, as Python does at
  its recursion limit. The loops carry the references found so far.
\<close>

fun list_concrete_types_recursive :: "nat \<Rightarrow> json \<Rightarrow> json \<Rightarrow> string list result"
  and concrete_refs_loop :: "nat \<Rightarrow> json \<Rightarrow> json list \<Rightarrow> string list \<Rightarrow> string list result"
where
  "list_concrete_types_recursive 0 raw_spec reference = Inl RecursionError"
| "list_concrete_types_recursive (Suc depth) raw_spec reference =
     (case lookup reference raw_spec of
        Inl e \<Rightarrow> Inl e
      | Inr schema \<Rightarrow>
          (case py_contains ''x-concreteTypes'' schema of
             Inl e \<Rightarrow> Inl e
           | Inr False \<Rightarrow> (case reference of JStr r \<Rightarrow> Inr [r] | _ \<Rightarrow> Inl TypeError)
           | Inr True \<Rightarrow>
               (case py_getitem schema ''x-concreteTypes'' of
                  Inl e \<Rightarrow> Inl e
                | Inr cts \<Rightarrow>
                    (case py_iter cts of
                       Inl e \<Rightarrow> Inl e
                     | Inr ref_dicts \<Rightarrow> concrete_refs_loop depth raw_spec ref_dicts []))))"
| "concrete_refs_loop depth raw_spec [] references = Inr references"
| "concrete_refs_loop depth raw_spec (ref_dict # rest) references =
     (case py_getitem ref_dict ''$ref'' of
        Inl e \<Rightarrow> Inl e
      | Inr r \<Rightarrow>
          (case list_concrete_types_recursive depth raw_spec r of
             Inl e \<Rightarrow> Inl e
           | Inr rs \<Rightarrow> concrete_refs_loop depth raw_spec rest (references @ rs)))"

fun concrete_types_loop :: "nat \<Rightarrow> json \<Rightarrow> json list \<Rightarrow> string list \<Rightarrow> string list result" where
  "concrete_types_loop depth raw_spec [] types = Inr types"
| "concrete_types_loop depth raw_spec (ref_dict # rest) types =
     (case py_getitem ref_dict ''$ref'' of
        Inl e \<Rightarrow> Inl e
      | Inr ref_link \<Rightarrow>
          (case list_concrete_types_recursive depth raw_spec ref_link of
             Inl e \<Rightarrow> Inl e
           | Inr links \<Rightarrow>
               concrete_types_loop depth raw_spec rest (types @ map last_segment links)))"

definition list_concrete_types :: "nat \<Rightarrow> json \<Rightarrow> json \<Rightarrow> string list result" where
  "list_concrete_types depth raw_spec schema =
     (case py_contains ''x-concreteTypes'' schema of
        Inl e \<Rightarrow> Inl e
      | Inr False \<Rightarrow> Inr []
      | Inr True \<Rightarrow>
          (case py_getitem schema ''x-concreteTypes'' of
             Inl e \<Rightarrow> Inl e
           | Inr cts \<Rightarrow>
               (case py_iter cts of
                  Inl e \<Rightarrow> Inl e
                | Inr ref_dicts \<Rightarrow> concrete_types_loop depth raw_spec ref_dicts [])))"

section \<open>The body parameter of a route\<close>

text \<open>\<open>_OpenAPIv2Spec.get_body_type_params\<close>.\<close>

definition get_body_type_params_v2 :: "json \<Rightarrow> string \<Rightarrow> string \<Rightarrow> json result" where
  "get_body_type_params_v2 raw_spec route http_method =
     (case py_path raw_spec [''paths'', route, http_method] of
        Inl e \<Rightarrow> Inl e
      | Inr route_data \<Rightarrow>
          (case py_get_default route_data ''parameters'' (JArr []) of
             Inl e \<Rightarrow> Inl e
           | Inr data \<Rightarrow>
               if truthy data
               then (case py_index0 data of
                       Inl e \<Rightarrow> Inl e
                     | Inr d0 \<Rightarrow>
                         (case py_get d0 ''schema'' of
                            Inl e \<Rightarrow> Inl e
                          | Inr schema \<Rightarrow>
                              (case py_get d0 ''required'' of
                                 Inl e \<Rightarrow> Inl e
                               | Inr required \<Rightarrow>
                                   (case py_get d0 ''description'' of
                                      Inl e \<Rightarrow> Inl e
                                    | Inr description \<Rightarrow>
                                        (case py_get d0 ''name'' of
                                           Inl e \<Rightarrow> Inl e
                                         | Inr name \<Rightarrow>
                                             Inr (JObj [(''schema'', schema),
                                                        (''required'', required),
                                                        (''description'', description),
                                                        (''name'', JArr [name])]))))))
               else Inr (JObj [])))"

text \<open>
  \<open>_OpenAPIv3Spec.get_body_type_params\<close>: the names are taken from the reference of
  the schema, or from the references of its \<open>oneOf\<close> branches.
\<close>

fun list_references_oneof :: "json list \<Rightarrow> json list \<Rightarrow> json list result" where
  "list_references_oneof [] list_refs = Inr list_refs"
| "list_references_oneof (type_dict # rest) list_refs =
     (case py_contains ''$ref'' type_dict of
        Inl e \<Rightarrow> Inl e
      | Inr False \<Rightarrow> list_references_oneof rest list_refs
      | Inr True \<Rightarrow>
          (case py_getitem type_dict ''$ref'' of
             Inl e \<Rightarrow> Inl e
           | Inr r \<Rightarrow> list_references_oneof rest (list_refs @ [r])))"

fun last_segments :: "json list \<Rightarrow> json list result" where
  "last_segments [] = Inr []"
| "last_segments (JStr r # rest) =
     (case last_segments rest of Inl e \<Rightarrow> Inl e | Inr ns \<Rightarrow> Inr (JStr (last_segment r) # ns))"
| "last_segments (x # rest) = Inl AttributeError"

definition body_param_names_v3 :: "json \<Rightarrow> json \<Rightarrow> json option result" where
  "body_param_names_v3 raw_block schema =
     (case py_contains ''$ref'' schema of
        Inl e \<Rightarrow> Inl e
      | Inr True \<Rightarrow>
          (case py_getitem schema ''$ref'' of
             Inl e \<Rightarrow> Inl e
           | Inr (JStr r) \<Rightarrow>
               (case py_get_default raw_block ''name'' (JStr (last_segment r)) of
                  Inl e \<Rightarrow> Inl e
                | Inr name \<Rightarrow> Inr (Some (JArr [name])))
           | Inr _ \<Rightarrow> Inl AttributeError)
      | Inr False \<Rightarrow>
          (case py_contains ''oneOf'' schema of
             Inl e \<Rightarrow> Inl e
           | Inr False \<Rightarrow> Inr None
           | Inr True \<Rightarrow>
               (case py_getitem schema ''oneOf'' of
                  Inl e \<Rightarrow> Inl e
                | Inr one_of \<Rightarrow>
                    (case py_iter one_of of
                       Inl e \<Rightarrow> Inl e
                     | Inr list_typedata \<Rightarrow>
                         (case list_references_oneof list_typedata [] of
                            Inl e \<Rightarrow> Inl e
                          | Inr list_refs \<Rightarrow>
                              (case last_segments list_refs of
                                 Inl e \<Rightarrow> Inl e
                               | Inr names \<Rightarrow> Inr (Some (JArr names))))))))"

definition request_block :: "json \<Rightarrow> json \<Rightarrow> json result" where
  "request_block raw_spec request_body =
     (case py_contains ''$ref'' request_body of
        Inl e \<Rightarrow> Inl e
      | Inr False \<Rightarrow> Inr request_body
      | Inr True \<Rightarrow>
          (case py_get request_body ''$ref'' of
             Inl e \<Rightarrow> Inl e
           | Inr r \<Rightarrow> lookup r raw_spec))"

definition body_param_v3 :: "json \<Rightarrow> json result" where
  "body_param_v3 raw_block =
     (case py_path raw_block [''content'', ''application/json'', ''schema''] of
        Inl e \<Rightarrow> Inl e
      | Inr schema \<Rightarrow>
          (case py_get raw_block ''required'' of
             Inl e \<Rightarrow> Inl e
           | Inr required \<Rightarrow>
               (case py_get raw_block ''description'' of
                  Inl e \<Rightarrow> Inl e
                | Inr description \<Rightarrow>
                    (case body_param_names_v3 raw_block schema of
                       Inl e \<Rightarrow> Inl e
                     | Inr None \<Rightarrow>
                         Inr (JObj [(''schema'', schema),
                                    (''required'', required),
                                    (''description'', description)])
                     | Inr (Some names) \<Rightarrow>
                         Inr (JObj [(''schema'', schema),
                                    (''required'', required),
                                    (''description'', description),
                                    (''name'', names)])))))"

definition get_body_type_params_v3 :: "json \<Rightarrow> string \<Rightarrow> string \<Rightarrow> json result" where
  "get_body_type_params_v3 raw_spec route http_method =
     (case py_path raw_spec [''paths'', route, http_method] of
        Inl e \<Rightarrow> Inl e
      | Inr route_data \<Rightarrow>
          (case py_contains ''requestBody'' route_data of
             Inl e \<Rightarrow> Inl e
           | Inr False \<Rightarrow> Inr (JObj [])
           | Inr True \<Rightarrow>
               (case py_getitem route_data ''requestBody'' of
                  Inl e \<Rightarrow> Inl e
                | Inr request_body \<Rightarrow>
                    (case request_block raw_spec request_body of
                       Inl e \<Rightarrow> Inl e
                     | Inr raw_block \<Rightarrow> body_param_v3 raw_block))))"

text \<open>\<open>_get_schema\<close>, which has the same text in both versions.\<close>

definition schema_of_param :: "json \<Rightarrow> json \<Rightarrow> json result" where
  "schema_of_param raw_spec param =
     (case py_contains ''schema'' param of
        Inl e \<Rightarrow> Inl e
      | Inr False \<Rightarrow> Inr JNull
      | Inr True \<Rightarrow>
          (case py_getitem param ''schema'' of
             Inl e \<Rightarrow> Inl e
           | Inr schema \<Rightarrow> deref raw_spec schema))"

definition get_schema_v2 :: "json \<Rightarrow> string \<Rightarrow> string \<Rightarrow> json result" where
  "get_schema_v2 raw_spec route http_method =
     (case get_body_type_params_v2 raw_spec route http_method of
        Inl e \<Rightarrow> Inl e
      | Inr param \<Rightarrow> schema_of_param raw_spec param)"

definition get_schema_v3 :: "json \<Rightarrow> string \<Rightarrow> string \<Rightarrow> json result" where
  "get_schema_v3 raw_spec route http_method =
     (case get_body_type_params_v3 raw_spec route http_method of
        Inl e \<Rightarrow> Inl e
      | Inr param \<Rightarrow> schema_of_param raw_spec param)"

section \<open>The discriminator cache and the resolution of a discriminated schema\<close>

text \<open>
  \<open>_discriminators\<close> is a dict of the class, shared by every call of the process: it
  is passed to each call and returned by it. An exception ends the command, so the
  cache is returned by a successful call only. The key of an entry is the text
  \<open>'{}/{}'.format(reference, disc_key)\<close>.
\<close>

type_synonym cache = "(string \<times> json) list"

definition disc_path :: "(json \<Rightarrow> string) \<Rightarrow> json \<Rightarrow> json \<Rightarrow> string" where
  "disc_path repr reference disc_key = py_str repr reference @ ''/'' @ py_str repr disc_key"

text \<open>\<open>data.get(disc_key) or self._discriminators.get(disc_path)\<close>.\<close>

definition supplied_or_cached :: "(json \<Rightarrow> string) \<Rightarrow> cache \<Rightarrow> json \<Rightarrow> json \<Rightarrow> json \<Rightarrow> json result" where
  "supplied_or_cached repr discriminators data reference disc_key =
     (case py_get_key data disc_key of
        Inl e \<Rightarrow> Inl e
      | Inr supplied \<Rightarrow>
          if truthy supplied then Inr supplied
          else (case map_of discriminators (disc_path repr reference disc_key) of
                  None \<Rightarrow> Inr JNull
                | Some cached \<Rightarrow> Inr cached))"

text \<open>\<open>disc_value in types\<close>, for a list of strings.\<close>

fun in_types :: "json \<Rightarrow> string list \<Rightarrow> bool" where
  "in_types (JStr v) types = (v \<in> set types)"
| "in_types _ types = False"

text \<open>
  Lines 994 to 1013 of \<open>_OpenAPIv2Spec.filter_json_object\<close>: the schema and the
  reference the method goes on with, and the cache.
\<close>

definition resolve_discriminator_v2 ::
  "nat \<Rightarrow> (json \<Rightarrow> string) \<Rightarrow> json \<Rightarrow> cache \<Rightarrow> json \<Rightarrow> json \<Rightarrow> json \<Rightarrow> (json \<times> json \<times> cache) result" where
  "resolve_discriminator_v2 depth repr raw_spec discriminators data schema reference =
     (case py_contains ''discriminator'' schema of
        Inl e \<Rightarrow> Inl e
      | Inr False \<Rightarrow> Inr (schema, reference, discriminators)
      | Inr True \<Rightarrow>
          (case py_getitem schema ''discriminator'' of
             Inl e \<Rightarrow> Inl e
           | Inr disc_key \<Rightarrow>
               (case supplied_or_cached repr discriminators data reference disc_key of
                  Inl e \<Rightarrow> Inl e
                | Inr disc_value \<Rightarrow>
                    if \<not> truthy disc_value then Inl (MissingParam disc_key)
                    else (case list_concrete_types depth raw_spec schema of
                            Inl e \<Rightarrow> Inl e
                          | Inr types \<Rightarrow>
                              if \<not> in_types disc_value types
                              then Inl (InvalidParam disc_key disc_value types)
                              else (case lookup (JStr (''#/definitions/'' @ py_str repr disc_value)) raw_spec of
                                      Inl e \<Rightarrow> Inl e
                                    | Inr concrete \<Rightarrow>
                                        Inr (concrete,
                                             JStr (''#/definitions/'' @ py_str repr disc_value),
                                             AList.update (disc_path repr reference disc_key) disc_value
                                               discriminators))))))"

text \<open>\<open>if "allOf" in schema: schema = self._merge_all(schema)\<close>.\<close>

definition merge_if_all_of :: "merge_fn \<Rightarrow> json \<Rightarrow> json \<Rightarrow> json result" where
  "merge_if_all_of merge_all raw_spec schema =
     (case py_contains ''allOf'' schema of
        Inl e \<Rightarrow> Inl e
      | Inr False \<Rightarrow> Inr schema
      | Inr True \<Rightarrow> merge_all schema raw_spec)"

text \<open>
  Lines 1228 to 1250 of \<open>_OpenAPIv3Spec.filter_json_object\<close>: the schema is looked up
  and merged first, and the value is compared with the concrete types of the result.
\<close>

definition resolve_discriminator_v3 ::
  "nat \<Rightarrow> (json \<Rightarrow> string) \<Rightarrow> merge_fn \<Rightarrow> json \<Rightarrow> cache \<Rightarrow> json \<Rightarrow> json \<Rightarrow> json \<Rightarrow>
   (json \<times> json \<times> cache) result" where
  "resolve_discriminator_v3 depth repr merge_all raw_spec discriminators data schema reference =
     (case py_contains ''discriminator'' schema of
        Inl e \<Rightarrow> Inl e
      | Inr False \<Rightarrow> Inr (schema, reference, discriminators)
      | Inr True \<Rightarrow>
          (case py_get schema ''discriminator'' of
             Inl e \<Rightarrow> Inl e
           | Inr discriminator \<Rightarrow>
               (case py_get discriminator ''propertyName'' of
                  Inl e \<Rightarrow> Inl e
                | Inr disc_key \<Rightarrow>
                    (case supplied_or_cached repr discriminators data reference disc_key of
                       Inl e \<Rightarrow> Inl e
                     | Inr disc_value \<Rightarrow>
                         if \<not> truthy disc_value then Inl (MissingParam disc_key)
                         else (case lookup (JStr (''#/components/schemas/'' @ py_str repr disc_value)) raw_spec of
                                 Inl e \<Rightarrow> Inl e
                               | Inr node \<Rightarrow>
                                   (case merge_if_all_of merge_all raw_spec node of
                                      Inl e \<Rightarrow> Inl e
                                    | Inr concrete \<Rightarrow>
                                        (case list_concrete_types depth raw_spec concrete of
                                           Inl e \<Rightarrow> Inl e
                                         | Inr types \<Rightarrow>
                                             if \<not> in_types disc_value types
                                             then Inl (InvalidParam disc_key disc_value types)
                                             else Inr (concrete,
                                                       JStr (''#/components/schemas/'' @ py_str repr disc_value),
                                                       AList.update (disc_path repr reference disc_key)
                                                         disc_value discriminators))))))))"

section \<open>filter_json_object\<close>

text \<open>
  \<open>key_path\<close> is only printed by \<open>utils.debug\<close>, but \<open>reference.split\<close> fails on a
  reference that is not a string.
\<close>

definition key_path :: "json \<Rightarrow> string \<Rightarrow> string result" where
  "key_path reference p_key =
     (if truthy reference
      then (case reference of
              JStr r \<Rightarrow> Inr (join ''.'' [last_segment r, p_key])
            | _ \<Rightarrow> Inl AttributeError)
      else Inr p_key)"

fun is_dict :: "json \<Rightarrow> bool" where
  "is_dict (JObj kvs) = True"
| "is_dict _ = False"

lemma size_py_getitem [termination_simp]:
  "py_getitem data k = Inr v \<Longrightarrow> size v < size data"
  by (cases data) (auto split: option.splits dest: size_map_of)

text \<open>
  The two versions of \<open>filter_json_object\<close> have the same text but for three steps:
  \<open>_get_schema\<close> (\<open>get_schema\<close>, the schema of the route and method, which are the same
  in every nested call), the resolution of a discriminated schema (\<open>resolve\<close>) and the
  schema of a sub-object (\<open>load_sub\<close>). The method is written once, over these three.
  \<open>filter_by_schema\<close> is the part of the method after the discriminator (lines 1015 to
  1048, and 1252 to 1290), \<open>filter_properties\<close> its loop; a call returns the filtered
  dict and the cache. \<open>schema = JNull\<close> is \<open>schema is None\<close>, \<open>reference = JNull\<close> the
  default \<open>reference=None\<close>; \<open>loaded_schema\<close> is the schema after lines 990 and 991.
\<close>

definition loaded_schema :: "json result \<Rightarrow> json \<Rightarrow> json result" where
  "loaded_schema get_schema schema = (if schema = JNull then get_schema else Inr schema)"

function filter_object ::
    "json result \<Rightarrow> (cache \<Rightarrow> json \<Rightarrow> json \<Rightarrow> json \<Rightarrow> (json \<times> json \<times> cache) result) \<Rightarrow>
     (json \<Rightarrow> json result) \<Rightarrow> bool \<Rightarrow> cache \<Rightarrow> json \<Rightarrow> json \<Rightarrow> json \<Rightarrow> (json \<times> cache) result"
  and filter_by_schema ::
    "json result \<Rightarrow> (cache \<Rightarrow> json \<Rightarrow> json \<Rightarrow> json \<Rightarrow> (json \<times> json \<times> cache) result) \<Rightarrow>
     (json \<Rightarrow> json result) \<Rightarrow> bool \<Rightarrow> cache \<Rightarrow> json \<Rightarrow> json \<Rightarrow> json \<Rightarrow> (json \<times> cache) result"
  and filter_properties ::
    "json result \<Rightarrow> (cache \<Rightarrow> json \<Rightarrow> json \<Rightarrow> json \<Rightarrow> (json \<times> json \<times> cache) result) \<Rightarrow>
     (json \<Rightarrow> json result) \<Rightarrow> bool \<Rightarrow> json \<Rightarrow> json \<Rightarrow> json \<Rightarrow> (string \<times> json) list \<Rightarrow>
     (string \<times> json) list \<Rightarrow> cache \<Rightarrow> (json \<times> cache) result"
where
  "filter_object get_schema resolve load_sub filter_createonly discriminators data schema reference =
     (case loaded_schema get_schema schema of
        Inl e \<Rightarrow> Inl e
      | Inr loaded \<Rightarrow>
          (case resolve discriminators data loaded reference of
             Inl e \<Rightarrow> Inl e
           | Inr (concrete, concrete_reference, discriminators') \<Rightarrow>
               filter_by_schema get_schema resolve load_sub filter_createonly discriminators' data
                 concrete concrete_reference))"
| "filter_by_schema get_schema resolve load_sub filter_createonly discriminators data schema reference =
     (if truthy schema
      then (case py_contains ''properties'' schema of
              Inl e \<Rightarrow> Inl e
            | Inr False \<Rightarrow> Inr (JObj [], discriminators)
            | Inr True \<Rightarrow>
                (case py_get_default schema ''x-createOnly'' (JStr []) of
                   Inl e \<Rightarrow> Inl e
                 | Inr create_only_props \<Rightarrow>
                     (case py_getitem schema ''properties'' of
                        Inl e \<Rightarrow> Inl e
                      | Inr properties \<Rightarrow>
                          (case py_items properties of
                             Inl e \<Rightarrow> Inl e
                           | Inr items \<Rightarrow>
                               filter_properties get_schema resolve load_sub filter_createonly data
                                 reference create_only_props items [] discriminators))))
      else Inr (JObj [], discriminators))"
| "filter_properties get_schema resolve load_sub filter_createonly data reference create_only_props
     [] filtered discriminators = Inr (JObj filtered, discriminators)"
| "filter_properties get_schema resolve load_sub filter_createonly data reference create_only_props
     ((p_key, p_value) # rest) filtered discriminators =
     (case key_path reference p_key of
        Inl e \<Rightarrow> Inl e
      | Inr path \<Rightarrow>
          (case py_contains p_key data of
             Inl e \<Rightarrow> Inl e
           | Inr False \<Rightarrow>
               filter_properties get_schema resolve load_sub filter_createonly data reference
                 create_only_props rest filtered discriminators
           | Inr True \<Rightarrow>
               (case py_get p_value ''readOnly'' of
                  Inl e \<Rightarrow> Inl e
                | Inr read_only_flag \<Rightarrow>
                    if truthy read_only_flag
                    then filter_properties get_schema resolve load_sub filter_createonly data reference
                           create_only_props rest filtered discriminators
                    else (case (if filter_createonly then py_contains p_key create_only_props
                                else Inr False) of
                            Inl e \<Rightarrow> Inl e
                          | Inr True \<Rightarrow>
                              filter_properties get_schema resolve load_sub filter_createonly data
                                reference create_only_props rest filtered discriminators
                          | Inr False \<Rightarrow>
                              (case py_contains ''$ref'' p_value of
                                 Inl e \<Rightarrow> Inl e
                               | Inr has_ref \<Rightarrow>
                                   (case py_getitem data p_key of
                                      Inl e \<Rightarrow> Inl e
                                    | Inr value \<Rightarrow>
                                        if has_ref \<and> is_dict value
                                        then (case py_getitem p_value ''$ref'' of
                                                Inl e \<Rightarrow> Inl e
                                              | Inr sub_reference \<Rightarrow>
                                                  (case load_sub sub_reference of
                                                     Inl e \<Rightarrow> Inl e
                                                   | Inr sub_schema \<Rightarrow>
                                                       (case filter_object get_schema resolve load_sub
                                                               filter_createonly discriminators value
                                                               sub_schema sub_reference of
                                                          Inl e \<Rightarrow> Inl e
                                                        | Inr (sub_object, discriminators') \<Rightarrow>
                                                            filter_properties get_schema resolve load_sub
                                                              filter_createonly data reference
                                                              create_only_props rest
                                                              (AList.update p_key sub_object filtered)
                                                              discriminators')))
                                        else filter_properties get_schema resolve load_sub
                                               filter_createonly data reference create_only_props rest
                                               (AList.update p_key value filtered) discriminators))))))"
  by pat_completeness auto
termination
  by (relation "inv_image (less_than <*lex*> less_than <*lex*> less_than)
        (\<lambda>x. case x of
           Inl (g, r, l, f, c, data, s, rf) \<Rightarrow> (size data, 2::nat, 0::nat)
         | Inr (Inl (g, r, l, f, c, data, s, rf)) \<Rightarrow> (size data, 1, 0)
         | Inr (Inr (g, r, l, f, data, rf, co, items, fl, c)) \<Rightarrow> (size data, 0, length items))")
     (auto simp: size_py_getitem)

text \<open>The two methods.\<close>

definition sub_schema_v3 :: "merge_fn \<Rightarrow> json \<Rightarrow> json \<Rightarrow> json result" where
  "sub_schema_v3 merge_all raw_spec sub_reference =
     (case lookup sub_reference raw_spec of
        Inl e \<Rightarrow> Inl e
      | Inr sub_schema \<Rightarrow> merge_if_all_of merge_all raw_spec sub_schema)"

definition filter_json_object_v2 ::
  "nat \<Rightarrow> (json \<Rightarrow> string) \<Rightarrow> json \<Rightarrow> cache \<Rightarrow> json \<Rightarrow> string \<Rightarrow> string \<Rightarrow> bool \<Rightarrow> json \<Rightarrow> json \<Rightarrow>
   (json \<times> cache) result" where
  "filter_json_object_v2 depth repr raw_spec discriminators data route http_method filter_createonly
     schema reference =
     filter_object (get_schema_v2 raw_spec route http_method)
       (resolve_discriminator_v2 depth repr raw_spec)
       (\<lambda>sub_reference. lookup sub_reference raw_spec)
       filter_createonly discriminators data schema reference"

definition filter_json_object_v3 ::
  "nat \<Rightarrow> (json \<Rightarrow> string) \<Rightarrow> merge_fn \<Rightarrow> json \<Rightarrow> cache \<Rightarrow> json \<Rightarrow> string \<Rightarrow> string \<Rightarrow> bool \<Rightarrow> json \<Rightarrow>
   json \<Rightarrow> (json \<times> cache) result" where
  "filter_json_object_v3 depth repr merge_all raw_spec discriminators data route http_method
     filter_createonly schema reference =
     filter_object (get_schema_v3 raw_spec route http_method)
       (resolve_discriminator_v3 depth repr merge_all raw_spec)
       (sub_schema_v3 merge_all raw_spec)
       filter_createonly discriminators data schema reference"

text \<open>The part of each method after the discriminator.\<close>

definition filter_by_schema_v2 ::
  "nat \<Rightarrow> (json \<Rightarrow> string) \<Rightarrow> json \<Rightarrow> cache \<Rightarrow> json \<Rightarrow> string \<Rightarrow> string \<Rightarrow> bool \<Rightarrow> json \<Rightarrow> json \<Rightarrow>
   (json \<times> cache) result" where
  "filter_by_schema_v2 depth repr raw_spec discriminators data route http_method filter_createonly
     schema reference =
     filter_by_schema (get_schema_v2 raw_spec route http_method)
       (resolve_discriminator_v2 depth repr raw_spec)
       (\<lambda>sub_reference. lookup sub_reference raw_spec)
       filter_createonly discriminators data schema reference"

definition filter_by_schema_v3 ::
  "nat \<Rightarrow> (json \<Rightarrow> string) \<Rightarrow> merge_fn \<Rightarrow> json \<Rightarrow> cache \<Rightarrow> json \<Rightarrow> string \<Rightarrow> string \<Rightarrow> bool \<Rightarrow> json \<Rightarrow>
   json \<Rightarrow> (json \<times> cache) result" where
  "filter_by_schema_v3 depth repr merge_all raw_spec discriminators data route http_method
     filter_createonly schema reference =
     filter_by_schema (get_schema_v3 raw_spec route http_method)
       (resolve_discriminator_v3 depth repr merge_all raw_spec)
       (sub_schema_v3 merge_all raw_spec)
       filter_createonly discriminators data schema reference"

section \<open>The concrete types of a schema, and that the code finds them\<close>

text \<open>
  The concrete types as the specification describes them, without a bound on the
  depth: a reference to a schema with no \<open>x-concreteTypes\<close> stands for itself, a
  reference to a schema with \<open>x-concreteTypes\<close> for the references its entries stand
  for, in order; the concrete types of a schema are the last segments of the
  references its entries stand for.
\<close>

inductive concrete_refs :: "json \<Rightarrow> json \<Rightarrow> string list \<Rightarrow> bool"
  and concrete_refs_list :: "json \<Rightarrow> json list \<Rightarrow> string list \<Rightarrow> bool"
  for raw_spec :: json
where
  refs_leaf:
    "lookup (JStr r) raw_spec = Inr schema \<Longrightarrow>
     py_contains ''x-concreteTypes'' schema = Inr False \<Longrightarrow>
     concrete_refs raw_spec (JStr r) [r]"
| refs_node:
    "lookup reference raw_spec = Inr schema \<Longrightarrow>
     py_contains ''x-concreteTypes'' schema = Inr True \<Longrightarrow>
     py_getitem schema ''x-concreteTypes'' = Inr entries \<Longrightarrow>
     py_iter entries = Inr ref_dicts \<Longrightarrow>
     concrete_refs_list raw_spec ref_dicts refs \<Longrightarrow>
     concrete_refs raw_spec reference refs"
| refs_nil:
    "concrete_refs_list raw_spec [] []"
| refs_cons:
    "py_getitem ref_dict ''$ref'' = Inr reference \<Longrightarrow>
     concrete_refs raw_spec reference refs \<Longrightarrow>
     concrete_refs_list raw_spec rest more \<Longrightarrow>
     concrete_refs_list raw_spec (ref_dict # rest) (refs @ more)"

inductive concrete_types :: "json \<Rightarrow> json \<Rightarrow> string list \<Rightarrow> bool"
  for raw_spec :: json
where
  types_none:
    "py_contains ''x-concreteTypes'' schema = Inr False \<Longrightarrow> concrete_types raw_spec schema []"
| types_some:
    "py_contains ''x-concreteTypes'' schema = Inr True \<Longrightarrow>
     py_getitem schema ''x-concreteTypes'' = Inr entries \<Longrightarrow>
     py_iter entries = Inr ref_dicts \<Longrightarrow>
     concrete_refs_list raw_spec ref_dicts refs \<Longrightarrow>
     concrete_types raw_spec schema (map last_segment refs)"

lemma concrete_refs_found:
  "concrete_refs raw_spec reference refs \<Longrightarrow>
     \<exists>n. \<forall>depth \<ge> n. list_concrete_types_recursive depth raw_spec reference = Inr refs"
  "concrete_refs_list raw_spec ref_dicts refs \<Longrightarrow>
     \<exists>n. \<forall>depth \<ge> n. \<forall>acc.
       concrete_refs_loop depth raw_spec ref_dicts acc = Inr (acc @ refs) \<and>
       concrete_types_loop depth raw_spec ref_dicts acc = Inr (acc @ map last_segment refs)"
proof (induction rule: concrete_refs_concrete_refs_list.inducts)
  case (refs_leaf r schema)
  have "list_concrete_types_recursive depth raw_spec (JStr r) = Inr [r]" if "Suc 0 \<le> depth" for depth
  proof -
    from that obtain d where "depth = Suc d" by (cases depth) auto
    with refs_leaf show ?thesis by simp
  qed
  then show ?case by blast
next
  case (refs_node reference schema entries ref_dicts refs)
  from refs_node obtain n where n:
    "\<forall>depth \<ge> n. \<forall>acc. concrete_refs_loop depth raw_spec ref_dicts acc = Inr (acc @ refs) \<and>
       concrete_types_loop depth raw_spec ref_dicts acc = Inr (acc @ map last_segment refs)"
    by auto
  have "list_concrete_types_recursive depth raw_spec reference = Inr refs" if "Suc n \<le> depth" for depth
  proof -
    from that obtain d where d: "depth = Suc d" "n \<le> d" by (cases depth) auto
    from n d(2) have "concrete_refs_loop d raw_spec ref_dicts [] = Inr refs" by fastforce
    with refs_node d(1) show ?thesis by simp
  qed
  then show ?case by blast
next
  case refs_nil
  show ?case by simp
next
  case (refs_cons ref_dict reference refs rest more)
  from refs_cons obtain n1 where n1:
    "\<forall>depth \<ge> n1. list_concrete_types_recursive depth raw_spec reference = Inr refs"
    by auto
  from refs_cons obtain n2 where n2:
    "\<forall>depth \<ge> n2. \<forall>acc. concrete_refs_loop depth raw_spec rest acc = Inr (acc @ more) \<and>
       concrete_types_loop depth raw_spec rest acc = Inr (acc @ map last_segment more)"
    by auto
  have "concrete_refs_loop depth raw_spec (ref_dict # rest) acc = Inr (acc @ refs @ more) \<and>
        concrete_types_loop depth raw_spec (ref_dict # rest) acc =
          Inr (acc @ map last_segment (refs @ more))"
    if "max n1 n2 \<le> depth" for depth acc
  proof -
    from that have d1: "n1 \<le> depth" and d2: "n2 \<le> depth" by simp_all
    from n1 d1 have r: "list_concrete_types_recursive depth raw_spec reference = Inr refs" by simp
    from n2 d2 have l1: "concrete_refs_loop depth raw_spec rest (acc @ refs) = Inr ((acc @ refs) @ more)"
      by blast
    from n2 d2 have l2: "concrete_types_loop depth raw_spec rest (acc @ map last_segment refs) =
                           Inr ((acc @ map last_segment refs) @ map last_segment more)"
      by blast
    from refs_cons r l1 l2 show ?thesis by simp
  qed
  then show ?case by blast
qed

lemma concrete_types_found:
  assumes "concrete_types raw_spec schema types"
  shows "\<exists>n. \<forall>depth \<ge> n. list_concrete_types depth raw_spec schema = Inr types"
  using assms
proof cases
  case types_none
  then show ?thesis by (simp add: list_concrete_types_def)
next
  case (types_some entries ref_dicts refs)
  from concrete_refs_found(2) [OF types_some(5)] obtain n where
    "\<forall>depth \<ge> n. \<forall>acc. concrete_refs_loop depth raw_spec ref_dicts acc = Inr (acc @ refs) \<and>
       concrete_types_loop depth raw_spec ref_dicts acc = Inr (acc @ map last_segment refs)"
    by auto
  then have "\<forall>depth \<ge> n. concrete_types_loop depth raw_spec ref_dicts [] = Inr (map last_segment refs)"
    by fastforce
  with types_some show ?thesis by (auto simp: list_concrete_types_def)
qed

section \<open>The discriminator of filter_json_object\<close>

declare filter_object.simps [simp del]
declare filter_by_schema.simps [simp del]

lemma py_getitem_contains:
  "py_getitem x k = Inr v \<Longrightarrow> py_contains k x = Inr True"
  by (cases x) (auto split: option.splits simp: map_of_in_keys)

lemma py_getitem_get:
  "py_getitem x k = Inr v \<Longrightarrow> py_get x k = Inr v"
  by (cases x) (auto split: option.splits simp: py_get_def)

lemma filter_json_object_v2_steps:
  "filter_json_object_v2 depth repr raw_spec discriminators data route http_method filter_createonly
     schema reference =
   (case loaded_schema (get_schema_v2 raw_spec route http_method) schema of
      Inl e \<Rightarrow> Inl e
    | Inr loaded \<Rightarrow>
        (case resolve_discriminator_v2 depth repr raw_spec discriminators data loaded reference of
           Inl e \<Rightarrow> Inl e
         | Inr (concrete, concrete_reference, discriminators') \<Rightarrow>
             filter_by_schema_v2 depth repr raw_spec discriminators' data route http_method
               filter_createonly concrete concrete_reference))"
  unfolding filter_json_object_v2_def filter_by_schema_v2_def
  by (simp add: filter_object.simps)

lemma filter_json_object_v3_steps:
  "filter_json_object_v3 depth repr merge_all raw_spec discriminators data route http_method
     filter_createonly schema reference =
   (case loaded_schema (get_schema_v3 raw_spec route http_method) schema of
      Inl e \<Rightarrow> Inl e
    | Inr loaded \<Rightarrow>
        (case resolve_discriminator_v3 depth repr merge_all raw_spec discriminators data loaded
                reference of
           Inl e \<Rightarrow> Inl e
         | Inr (concrete, concrete_reference, discriminators') \<Rightarrow>
             filter_by_schema_v3 depth repr merge_all raw_spec discriminators' data route http_method
               filter_createonly concrete concrete_reference))"
  unfolding filter_json_object_v3_def filter_by_schema_v3_def
  by (simp add: filter_object.simps)

lemma resolve_discriminator_v2_value:
  assumes "py_getitem schema ''discriminator'' = Inr disc_key"
    and "supplied_or_cached repr discriminators data reference disc_key = Inr disc_value"
    and "truthy disc_value"
    and "list_concrete_types depth raw_spec schema = Inr types"
  shows "resolve_discriminator_v2 depth repr raw_spec discriminators data schema reference =
           (if in_types disc_value types
            then (case lookup (JStr (''#/definitions/'' @ py_str repr disc_value)) raw_spec of
                    Inl e \<Rightarrow> Inl e
                  | Inr concrete \<Rightarrow>
                      Inr (concrete, JStr (''#/definitions/'' @ py_str repr disc_value),
                           AList.update (disc_path repr reference disc_key) disc_value discriminators))
            else Inl (InvalidParam disc_key disc_value types))"
  using assms py_getitem_contains [OF assms(1)]
  by (simp add: resolve_discriminator_v2_def)

lemma resolve_discriminator_v3_value:
  assumes "py_getitem schema ''discriminator'' = Inr discriminator"
    and "py_get discriminator ''propertyName'' = Inr disc_key"
    and "supplied_or_cached repr discriminators data reference disc_key = Inr disc_value"
    and "truthy disc_value"
    and "lookup (JStr (''#/components/schemas/'' @ py_str repr disc_value)) raw_spec = Inr node"
    and "merge_if_all_of merge_all raw_spec node = Inr concrete"
    and "list_concrete_types depth raw_spec concrete = Inr types"
  shows "resolve_discriminator_v3 depth repr merge_all raw_spec discriminators data schema reference =
           (if in_types disc_value types
            then Inr (concrete, JStr (''#/components/schemas/'' @ py_str repr disc_value),
                      AList.update (disc_path repr reference disc_key) disc_value discriminators)
            else Inl (InvalidParam disc_key disc_value types))"
  using assms py_getitem_contains [OF assms(1)] py_getitem_get [OF assms(1)]
  by (simp add: resolve_discriminator_v3_def)

lemma supplied_value:
  "py_get_key data disc_key = Inr disc_value \<Longrightarrow> truthy disc_value \<Longrightarrow>
   supplied_or_cached repr discriminators data reference disc_key = Inr disc_value"
  by (simp add: supplied_or_cached_def)




section \<open>The discriminator cache\<close>

lemma resolve_discriminator_v2_success:
  assumes "py_getitem schema ''discriminator'' = Inr disc_key"
    and "resolve_discriminator_v2 depth repr raw_spec discriminators data schema reference =
           Inr (concrete, concrete_reference, discriminators')"
  obtains v types where
    "supplied_or_cached repr discriminators data reference disc_key = Inr v"
    "truthy v"
    "list_concrete_types depth raw_spec schema = Inr types"
    "in_types v types"
    "lookup (JStr (''#/definitions/'' @ py_str repr v)) raw_spec = Inr concrete"
    "concrete_reference = JStr (''#/definitions/'' @ py_str repr v)"
    "discriminators' = AList.update (disc_path repr reference disc_key) v discriminators"
  using assms py_getitem_contains [OF assms(1)]
  by (auto simp: resolve_discriminator_v2_def split: sum.splits if_splits)

lemma resolve_discriminator_v3_success:
  assumes "py_getitem schema ''discriminator'' = Inr discriminator"
    and "py_get discriminator ''propertyName'' = Inr disc_key"
    and "resolve_discriminator_v3 depth repr merge_all raw_spec discriminators data schema reference =
           Inr (concrete, concrete_reference, discriminators')"
  obtains v node types where
    "supplied_or_cached repr discriminators data reference disc_key = Inr v"
    "truthy v"
    "lookup (JStr (''#/components/schemas/'' @ py_str repr v)) raw_spec = Inr node"
    "merge_if_all_of merge_all raw_spec node = Inr concrete"
    "list_concrete_types depth raw_spec concrete = Inr types"
    "in_types v types"
    "concrete_reference = JStr (''#/components/schemas/'' @ py_str repr v)"
    "discriminators' = AList.update (disc_path repr reference disc_key) v discriminators"
  using assms py_getitem_contains [OF assms(1)] py_getitem_get [OF assms(1)]
  by (auto simp: resolve_discriminator_v3_def split: sum.splits if_splits)

lemma cached_value:
  "py_get_key data disc_key = Inr absent \<Longrightarrow> \<not> truthy absent \<Longrightarrow>
   map_of discriminators (disc_path repr reference disc_key) = Some v \<Longrightarrow>
   supplied_or_cached repr discriminators data reference disc_key = Inr v"
  by (simp add: supplied_or_cached_def)

lemma update_twice:
  "AList.update k v (AList.update k v al) = AList.update k v al"
  by (rule AList.update_triv) (simp add: AList.update_conv')



end
